theory Spec2Isabelle
  imports Complex_Main "HOL-Library.Word"
begin

section \<open>Numbers and the glm vector library\<close>

text \<open>
  The loader \<open>vkglTF::Model::loadNode\<close> (src/base/VulkanglTFModel.hpp) computes with
  32-bit floats. A float is modelled as a real number: sums and products are exact, and
  NaN, the infinities and rounding are outside the model. What cannot be written with
  exact arithmetic is a parameter of the model, collected in \<open>FloatOps\<close>: how four bytes
  of a buffer denote a float (\<open>reinterpret_cast<const float *>\<close>), how a double of the
  scene description becomes a float (\<open>static_cast<float>\<close> and glm's double-to-float
  vector conversions), and \<open>glm::normalize\<close> (an inverse square root).
\<close>

type_synonym f32 = real
type_synonym vec3 = "f32 \<times> f32 \<times> f32"
type_synonym vec4 = "f32 \<times> f32 \<times> f32 \<times> f32"
type_synonym quat = "f32 \<times> f32 \<times> f32 \<times> f32"

text \<open>A \<open>glm::mat4\<close> is four columns; \<open>m[3]\<close>, the fourth, carries the translation.\<close>

type_synonym mat4 = "vec4 \<times> vec4 \<times> vec4 \<times> vec4"

record FloatOps =
  f32_of_bytes :: "8 word list \<Rightarrow> f32"
  f32_of_double :: "real \<Rightarrow> f32"
  glm_normalize :: "vec3 \<Rightarrow> vec3"

definition col0 :: "mat4 \<Rightarrow> vec4" where
  "col0 m = (case m of (a, b, c, d) \<Rightarrow> a)"

definition col1 :: "mat4 \<Rightarrow> vec4" where
  "col1 m = (case m of (a, b, c, d) \<Rightarrow> b)"

definition col2 :: "mat4 \<Rightarrow> vec4" where
  "col2 m = (case m of (a, b, c, d) \<Rightarrow> c)"

definition col3 :: "mat4 \<Rightarrow> vec4" where
  "col3 m = (case m of (a, b, c, d) \<Rightarrow> d)"

definition vec4_add :: "vec4 \<Rightarrow> vec4 \<Rightarrow> vec4" where
  "vec4_add u v =
     (case u of (ux, uy, uz, uw) \<Rightarrow> case v of (vx, vy, vz, vw) \<Rightarrow>
        (ux + vx, uy + vy, uz + vz, uw + vw))"

definition vec4_mul :: "vec4 \<Rightarrow> f32 \<Rightarrow> vec4" where
  "vec4_mul u s = (case u of (ux, uy, uz, uw) \<Rightarrow> (ux * s, uy * s, uz * s, uw * s))"

definition vec3_mul :: "vec3 \<Rightarrow> f32 \<Rightarrow> vec3" where
  "vec3_mul u s = (case u of (ux, uy, uz) \<Rightarrow> (ux * s, uy * s, uz * s))"

text \<open>\<open>glm::vec3(v)\<close> of a \<open>vec4\<close> drops \<open>w\<close>; \<open>glm::vec4(v, w)\<close> appends it.\<close>

definition vec3_of_vec4 :: "vec4 \<Rightarrow> vec3" where
  "vec3_of_vec4 v = (case v of (x, y, z, w) \<Rightarrow> (x, y, z))"

definition vec4_of_vec3 :: "vec3 \<Rightarrow> f32 \<Rightarrow> vec4" where
  "vec4_of_vec3 v w = (case v of (x, y, z) \<Rightarrow> (x, y, z, w))"

text \<open>\<open>glm::mat4(s)\<close>: \<open>s\<close> on the diagonal.\<close>

definition mat4_diag :: "f32 \<Rightarrow> mat4" where
  "mat4_diag s = ((s, 0, 0, 0), (0, s, 0, 0), (0, 0, s, 0), (0, 0, 0, s))"

text \<open>\<open>m * v\<close>: the columns of \<open>m\<close> weighted by the components of \<open>v\<close>.\<close>

definition mat4_mul_vec4 :: "mat4 \<Rightarrow> vec4 \<Rightarrow> vec4" where
  "mat4_mul_vec4 m v =
     (case v of (x, y, z, w) \<Rightarrow>
        vec4_add (vec4_add (vec4_mul (col0 m) x) (vec4_mul (col1 m) y))
                 (vec4_add (vec4_mul (col2 m) z) (vec4_mul (col3 m) w)))"

text \<open>\<open>a * b\<close>: column \<open>j\<close> of the product is \<open>a\<close> applied to column \<open>j\<close> of \<open>b\<close>.\<close>

definition mat4_mul :: "mat4 \<Rightarrow> mat4 \<Rightarrow> mat4" where
  "mat4_mul a b =
     (mat4_mul_vec4 a (col0 b), mat4_mul_vec4 a (col1 b),
      mat4_mul_vec4 a (col2 b), mat4_mul_vec4 a (col3 b))"

text \<open>\<open>glm::mat3(m) * v\<close>: the upper-left 3x3 block of \<open>m\<close> applied to \<open>v\<close>.\<close>

definition mat3_mul_vec3 :: "mat4 \<Rightarrow> vec3 \<Rightarrow> vec3" where
  "mat3_mul_vec3 m v =
     (case v of (x, y, z) \<Rightarrow>
        vec3_of_vec4
          (vec4_add (vec4_add (vec4_mul (col0 m) x) (vec4_mul (col1 m) y))
                    (vec4_mul (col2 m) z)))"

text \<open>\<open>glm::translate(m, v)\<close> replaces the fourth column by
  \<open>m[0] * v.x + m[1] * v.y + m[2] * v.z + m[3]\<close>.\<close>

definition glm_translate :: "mat4 \<Rightarrow> vec3 \<Rightarrow> mat4" where
  "glm_translate m v =
     (case v of (x, y, z) \<Rightarrow>
        (col0 m, col1 m, col2 m,
         vec4_add (vec4_add (vec4_add (vec4_mul (col0 m) x) (vec4_mul (col1 m) y))
                            (vec4_mul (col2 m) z))
                  (col3 m)))"

text \<open>\<open>glm::scale(m, v)\<close> scales the first three columns and keeps the fourth.\<close>

definition glm_scale :: "mat4 \<Rightarrow> vec3 \<Rightarrow> mat4" where
  "glm_scale m v =
     (case v of (x, y, z) \<Rightarrow>
        (vec4_mul (col0 m) x, vec4_mul (col1 m) y, vec4_mul (col2 m) z, col3 m))"

text \<open>\<open>glm::mat4(q)\<close> of a quaternion \<open>(x, y, z, w)\<close>: the rotation block of
  \<open>glm::mat3_cast\<close>, completed by the fourth row and column of the identity.\<close>

definition mat4_cast :: "quat \<Rightarrow> mat4" where
  "mat4_cast q =
     (case q of (x, y, z, w) \<Rightarrow>
        ((1 - 2 * (y * y + z * z), 2 * (x * y + w * z), 2 * (x * z - w * y), 0),
         (2 * (x * y - w * z), 1 - 2 * (x * x + z * z), 2 * (y * z + w * x), 0),
         (2 * (x * z + w * y), 2 * (y * z - w * x), 1 - 2 * (x * x + y * y), 0),
         (0, 0, 0, 1)))"

text \<open>\<open>glm::make_vec3\<close>, \<open>glm::make_quat\<close> and \<open>glm::make_mat4x4\<close> read 3, 4 and 16
  consecutive doubles of a node's array (the caller has checked its size) and the
  result is converted to float components.\<close>

definition make_vec3 :: "FloatOps \<Rightarrow> real list \<Rightarrow> vec3" where
  "make_vec3 F p = (f32_of_double F (p ! 0), f32_of_double F (p ! 1), f32_of_double F (p ! 2))"

definition make_quat :: "FloatOps \<Rightarrow> real list \<Rightarrow> quat" where
  "make_quat F p =
     (f32_of_double F (p ! 0), f32_of_double F (p ! 1), f32_of_double F (p ! 2),
      f32_of_double F (p ! 3))"

definition make_mat4x4 :: "FloatOps \<Rightarrow> real list \<Rightarrow> mat4" where
  "make_mat4x4 F p =
     ((f32_of_double F (p ! 0), f32_of_double F (p ! 1), f32_of_double F (p ! 2),
       f32_of_double F (p ! 3)),
      (f32_of_double F (p ! 4), f32_of_double F (p ! 5), f32_of_double F (p ! 6),
       f32_of_double F (p ! 7)),
      (f32_of_double F (p ! 8), f32_of_double F (p ! 9), f32_of_double F (p ! 10),
       f32_of_double F (p ! 11)),
      (f32_of_double F (p ! 12), f32_of_double F (p ! 13), f32_of_double F (p ! 14),
       f32_of_double F (p ! 15)))"

section \<open>The scene description (tinygltf)\<close>

text \<open>
  The parser's structures, with the fields \<open>loadNode\<close> reads. Their field names carry
  the structure's name as a prefix, since several structures share field names
  (\<open>sampler\<close>, \<open>input\<close>, \<open>primitives\<close>, \<open>weights\<close>).
\<close>

record Node =
  node_translation :: "real list"
  node_rotation :: "real list"
  node_scale :: "real list"
  node_matrix :: "real list"
  node_children :: "int list"
  node_mesh :: int

record Accessor =
  acc_bufferView :: int
  acc_byteOffset :: nat
  acc_componentType :: int
  acc_count :: nat

record BufferView =
  view_buffer :: int
  view_byteOffset :: nat

record Buffer =
  buf_data :: "8 word list"

record AnimationChannel =
  chan_sampler :: int
  chan_target_node :: int
  chan_target_path :: string

record AnimationSampler =
  samp_input :: int
  samp_output :: int
  samp_interpolation :: string

record Animation =
  anim_channels :: "AnimationChannel list"
  anim_samplers :: "AnimationSampler list"

text \<open>\<open>tinygltf::Primitive\<close>: \<open>attributes\<close> and every element of \<open>targets\<close> are
  \<open>std::map<std::string, int>\<close>, from a stream's name to its accessor.\<close>

record tinygltf_Primitive =
  prim_attributes :: "string \<rightharpoonup> int"
  prim_targets :: "(string \<rightharpoonup> int) list"
  prim_indices :: int
  prim_material :: int

record tinygltf_Mesh =
  mesh_weights :: "real list"
  mesh_primitives :: "tinygltf_Primitive list"

record tinygltf_Model =
  model_accessors :: "Accessor list"
  model_bufferViews :: "BufferView list"
  model_buffers :: "Buffer list"
  model_meshes :: "tinygltf_Mesh list"
  model_nodes :: "Node list"
  model_animations :: "Animation list"

definition TINYGLTF_PARAMETER_TYPE_UNSIGNED_BYTE :: int where
  "TINYGLTF_PARAMETER_TYPE_UNSIGNED_BYTE = 5121"

definition TINYGLTF_PARAMETER_TYPE_UNSIGNED_SHORT :: int where
  "TINYGLTF_PARAMETER_TYPE_UNSIGNED_SHORT = 5123"

definition TINYGLTF_PARAMETER_TYPE_UNSIGNED_INT :: int where
  "TINYGLTF_PARAMETER_TYPE_UNSIGNED_INT = 5125"

section \<open>Failures, indexing and buffer reads\<close>

text \<open>
  The loader checks no cross-reference. Where the C++ would index a vector or read a
  buffer out of range (undefined behaviour), call \<open>back()\<close> on an empty vector, or fail
  its \<open>assert\<close>, the model ends with an error and no state.
\<close>

datatype error = AssertionFailed | OutOfRange

text \<open>An \<open>int\<close> used as a vector index is converted to \<open>size_t\<close>: a negative one
  becomes a huge index.\<close>

definition size_t :: "int \<Rightarrow> nat" where
  "size_t i = nat (i mod 2 ^ 64)"

definition elem_at :: "'a list \<Rightarrow> nat \<Rightarrow> error + 'a" where
  "elem_at xs n = (if n < length xs then Inr (xs ! n) else Inl OutOfRange)"

text \<open>A pointer into a buffer: the buffer's bytes and a byte offset.\<close>

type_synonym buffer_ptr = "8 word list \<times> nat"

text \<open>\<open>model.accessors[i]\<close>, \<open>model.bufferViews[accessor.bufferView]\<close> and
  \<open>&(model.buffers[view.buffer].data[accessor.byteOffset + view.byteOffset])\<close>.\<close>

definition accessorData :: "tinygltf_Model \<Rightarrow> nat \<Rightarrow> error + (Accessor \<times> buffer_ptr)" where
  "accessorData model i =
     (case elem_at (model_accessors model) i of
        Inl e \<Rightarrow> Inl e
      | Inr accessor \<Rightarrow>
          (case elem_at (model_bufferViews model) (size_t (acc_bufferView accessor)) of
             Inl e \<Rightarrow> Inl e
           | Inr view \<Rightarrow>
               (case elem_at (model_buffers model) (size_t (view_buffer view)) of
                  Inl e \<Rightarrow> Inl e
                | Inr b \<Rightarrow>
                    Inr (accessor,
                         (buf_data b, acc_byteOffset accessor + view_byteOffset view)))))"

text \<open>Whether \<open>n\<close> bytes can be read at a pointer; reading nothing is always allowed.\<close>

definition bytes_readable :: "buffer_ptr \<Rightarrow> nat \<Rightarrow> bool" where
  "bytes_readable p n = (n = 0 \<or> snd p + n \<le> length (fst p))"

text \<open>\<open>ptr[k]\<close> of a \<open>const float *\<close>: the four bytes at byte offset \<open>4 * k\<close>.\<close>

definition floatAt :: "FloatOps \<Rightarrow> buffer_ptr \<Rightarrow> nat \<Rightarrow> f32" where
  "floatAt F p k = f32_of_bytes F (take 4 (drop (snd p + 4 * k) (fst p)))"

text \<open>\<open>glm::make_vec3(&ptr[i * 3])\<close>.\<close>

definition make_vec3_at :: "FloatOps \<Rightarrow> buffer_ptr \<Rightarrow> nat \<Rightarrow> vec3" where
  "make_vec3_at F p i = (floatAt F p (i * 3), floatAt F p (i * 3 + 1), floatAt F p (i * 3 + 2))"

text \<open>\<open>buf[k]\<close> after the \<open>memcpy\<close> of the index bytes into an array of \<open>uint8_t\<close>,
  \<open>uint16_t\<close> or \<open>uint32_t\<close> (little-endian, as on every Android ABI), converted to
  \<open>uint32_t\<close>.\<close>

definition u8_at :: "buffer_ptr \<Rightarrow> nat \<Rightarrow> 32 word" where
  "u8_at p k = ucast (fst p ! (snd p + k))"

definition u16_at :: "buffer_ptr \<Rightarrow> nat \<Rightarrow> 32 word" where
  "u16_at p k =
     ucast (fst p ! (snd p + 2 * k)) + 256 * ucast (fst p ! (snd p + 2 * k + 1))"

definition u32_at :: "buffer_ptr \<Rightarrow> nat \<Rightarrow> 32 word" where
  "u32_at p k =
     ucast (fst p ! (snd p + 4 * k)) + 256 * ucast (fst p ! (snd p + 4 * k + 1))
     + 65536 * ucast (fst p ! (snd p + 4 * k + 2))
     + 16777216 * ucast (fst p ! (snd p + 4 * k + 3))"

section \<open>The loader's structures (vkglTF)\<close>

definition MAX_WEIGHTS :: nat where
  "MAX_WEIGHTS = 8"

text \<open>\<open>material\<close> is a reference to \<open>materials[primitive.material]\<close>; the model keeps
  the index it refers to (the reference is never read by the loader).\<close>

record Primitive =
  firstIndex :: "32 word"
  indexCount :: "32 word"
  material :: int

record MorphPushConst =
  bufferOffset :: "32 word"
  normalOffset :: "32 word"
  tangentOffset :: "32 word"
  vertexStride :: "32 word"
  weights :: "f32 list"

datatype MorphInterpolation = LINEAR | STEP | CUBICSPLINE

text \<open>The members \<open>input\<close> and \<open>output\<close> of \<open>Mesh\<close> are \<open>input_accessor\<close> and
  \<open>output_accessor\<close> here.\<close>

record Mesh =
  isMorphTarget :: bool
  sampler :: nat
  input_accessor :: nat
  output_accessor :: nat
  interpolation :: MorphInterpolation
  weightsInit :: "f32 list"
  weightsTime :: "f32 list"
  weightsData :: "f32 list"
  morphVertexOffset :: "32 word"
  morphPushConst :: MorphPushConst
  primitives :: "Primitive list"
  currentIndex :: "32 word"

record Vertex =
  pos :: vec3
  normal :: vec3
  tangent :: vec3

text \<open>\<open>sizeof(Vertex)\<close>: three \<open>glm::vec3\<close> of three 4-byte floats.\<close>

definition sizeof_Vertex :: nat where
  "sizeof_Vertex = 36"

text \<open>\<open>Mesh{}\<close>: every member zero, the vectors empty, \<open>weights\<close> an array of
  \<open>MAX_WEIGHTS\<close> zeros.\<close>

definition Mesh_init :: Mesh where
  "Mesh_init =
     \<lparr>isMorphTarget = False, sampler = 0, input_accessor = 0, output_accessor = 0, interpolation = LINEAR,
      weightsInit = [], weightsTime = [], weightsData = [], morphVertexOffset = 0,
      morphPushConst =
        \<lparr>bufferOffset = 0, normalOffset = 0, tangentOffset = 0, vertexStride = 0,
         weights = replicate MAX_WEIGHTS 0\<rparr>,
      primitives = [], currentIndex = 0\<rparr>"

text \<open>What \<open>loadNode\<close> writes: the members \<open>meshesMorph\<close>, \<open>meshesNormal\<close>,
  \<open>morphVertexData\<close> and \<open>animationMaxTime\<close> of \<open>vkglTF::Model\<close>, the four vectors it
  receives by reference, and \<open>std::cerr\<close>.\<close>

datatype message = IndexComponentTypeNotSupported int

record LoadState =
  meshesMorph :: "Mesh list"
  meshesNormal :: "Mesh list"
  morphVertexData :: "f32 list"
  animationMaxTime :: f32
  vertexBufferMorph :: "Vertex list"
  indexBufferMorph :: "32 word list"
  vertexBufferNormal :: "Vertex list"
  indexBufferNormal :: "32 word list"
  cerr :: "message list"

section \<open>loadNode: the local node matrices (lines 426-451)\<close>

definition translation :: "FloatOps \<Rightarrow> Node \<Rightarrow> vec3" where
  "translation F node =
     (if length (node_translation node) = 3 then make_vec3 F (node_translation node)
      else (0, 0, 0))"

definition rotation :: "FloatOps \<Rightarrow> Node \<Rightarrow> mat4" where
  "rotation F node =
     (if length (node_rotation node) = 4 then mat4_cast (make_quat F (node_rotation node))
      else mat4_diag 1)"

definition scale :: "FloatOps \<Rightarrow> Node \<Rightarrow> vec3" where
  "scale F node =
     (if length (node_scale node) = 3 then make_vec3 F (node_scale node)
      else (1, 1, 1))"

text \<open>\<open>localNodeTRSMatrix\<close> as it stands before line 450 multiplies it by the parent's
  matrix, and \<open>localNodeRSMatrix\<close>, which no later line changes.\<close>

definition localNodeTRSMatrix :: "FloatOps \<Rightarrow> Node \<Rightarrow> mat4" where
  "localNodeTRSMatrix F node =
     (if length (node_matrix node) = 16 then make_mat4x4 F (node_matrix node)
      else mat4_mul (mat4_mul (glm_translate (mat4_diag 1) (translation F node))
                              (rotation F node))
                    (glm_scale (mat4_diag 1) (scale F node)))"

definition localNodeRSMatrix :: "FloatOps \<Rightarrow> Node \<Rightarrow> mat4" where
  "localNodeRSMatrix F node =
     (if length (node_matrix node) = 16 then make_mat4x4 F (node_matrix node)
      else mat4_mul (mat4_mul (mat4_diag 1) (rotation F node))
                    (glm_scale (mat4_diag 1) (scale F node)))"

section \<open>loadNode: binding the animation sampler (lines 477-499)\<close>

text \<open>The body of the \<open>if\<close> at line 482, for a channel that matches: the mesh takes the
  channel's sampler and that sampler's accessors and interpolation.\<close>

definition interpolationOf :: "string \<Rightarrow> MorphInterpolation" where
  "interpolationOf s =
     (if s = ''STEP'' then STEP
      else if s = ''CUBICSPLINE'' then CUBICSPLINE
      else LINEAR)"

definition bindChannel :: "Animation \<Rightarrow> AnimationChannel \<Rightarrow> Mesh \<Rightarrow> error + Mesh" where
  "bindChannel animation channel pMesh =
     (case elem_at (anim_samplers animation) (size_t (chan_sampler channel)) of
        Inl e \<Rightarrow> Inl e
      | Inr s \<Rightarrow>
          Inr (pMesh\<lparr>sampler := size_t (chan_sampler channel),
                     input_accessor := size_t (samp_input s),
                     output_accessor := size_t (samp_output s),
                     interpolation := interpolationOf (samp_interpolation s)\<rparr>))"

text \<open>\<open>channel.target_node == nodeIndex\<close> compares an \<open>int\<close> with a \<open>size_t\<close>.\<close>

definition channelMatches :: "nat \<Rightarrow> AnimationChannel \<Rightarrow> bool" where
  "channelMatches nodeIndex channel =
     (size_t (chan_target_node channel) = nodeIndex \<and> chan_target_path channel = ''weights'')"

text \<open>The inner loop over one animation's channels, left by \<open>break\<close> at the first match;
  the boolean is \<open>foundSampler\<close>.\<close>

fun scanChannels :: "Animation \<Rightarrow> nat \<Rightarrow> AnimationChannel list \<Rightarrow> Mesh \<Rightarrow> error + (Mesh \<times> bool)" where
  "scanChannels animation nodeIndex [] pMesh = Inr (pMesh, False)"
| "scanChannels animation nodeIndex (channel # rest) pMesh =
     (if channelMatches nodeIndex channel then
        (case bindChannel animation channel pMesh of
           Inl e \<Rightarrow> Inl e
         | Inr m \<Rightarrow> Inr (m, True))
      else scanChannels animation nodeIndex rest pMesh)"

text \<open>The outer loop over the animations, left once \<open>foundSampler\<close> is set.\<close>

fun scanAnimations :: "Animation list \<Rightarrow> nat \<Rightarrow> Mesh \<Rightarrow> error + (Mesh \<times> bool)" where
  "scanAnimations [] nodeIndex pMesh = Inr (pMesh, False)"
| "scanAnimations (animation # rest) nodeIndex pMesh =
     (case scanChannels animation nodeIndex (anim_channels animation) pMesh of
        Inl e \<Rightarrow> Inl e
      | Inr (m, foundSampler) \<Rightarrow>
          if foundSampler then Inr (m, True) else scanAnimations rest nodeIndex m)"

section \<open>loadNode: the weights of a morph mesh (lines 501-538)\<close>

text \<open>An accessor's floats copied into a vector: \<open>count\<close> elements read through the
  \<open>const float *\<close>.\<close>

definition readFloats :: "FloatOps \<Rightarrow> tinygltf_Model \<Rightarrow> nat \<Rightarrow> error + f32 list" where
  "readFloats F model i =
     (case accessorData model i of
        Inl e \<Rightarrow> Inl e
      | Inr (accessor, p) \<Rightarrow>
          if bytes_readable p (4 * acc_count accessor)
          then Inr (map (floatAt F p) [0..<acc_count accessor])
          else Inl OutOfRange)"

definition loadWeights ::
  "FloatOps \<Rightarrow> tinygltf_Model \<Rightarrow> tinygltf_Mesh \<Rightarrow> nat \<Rightarrow> Mesh \<Rightarrow> LoadState \<Rightarrow> error + (Mesh \<times> LoadState)" where
  "loadWeights F model mesh nodeIndex pMesh st =
     (case scanAnimations (model_animations model) nodeIndex pMesh of
        Inl e \<Rightarrow> Inl e
      | Inr (m, foundSampler) \<Rightarrow>
          let m1 = m\<lparr>weightsInit :=
                       weightsInit m @ map (f32_of_double F) (take MAX_WEIGHTS (mesh_weights mesh))\<rparr>
          in if \<not> foundSampler then Inr (m1\<lparr>weightsTime := [], weightsData := []\<rparr>, st)
             else
               (case readFloats F model (input_accessor m1) of
                  Inl e \<Rightarrow> Inl e
                | Inr wTime \<Rightarrow>
                    if wTime = [] then Inl OutOfRange
                    else
                      (case readFloats F model (output_accessor m1) of
                         Inl e \<Rightarrow> Inl e
                       | Inr wData \<Rightarrow>
                           Inr (m1\<lparr>weightsTime := wTime, weightsData := wData\<rparr>,
                                st\<lparr>animationMaxTime := max (animationMaxTime st) (last wTime)\<rparr>))))"

section \<open>loadNode: packing the morph targets (lines 591-645)\<close>

text \<open>One of the three loops over \<open>primitive.targets\<close>: the accessor and the float
  pointer of every target that declares the stream \<open>name\<close>, in target order.\<close>

fun morphStreams ::
  "tinygltf_Model \<Rightarrow> string \<Rightarrow> (string \<rightharpoonup> int) list \<Rightarrow> error + (Accessor \<times> buffer_ptr) list" where
  "morphStreams model name [] = Inr []"
| "morphStreams model name (t # ts) =
     (case t name of
        None \<Rightarrow> morphStreams model name ts
      | Some a \<Rightarrow>
          (case accessorData model (size_t a) of
             Inl e \<Rightarrow> Inl e
           | Inr r \<Rightarrow>
               (case morphStreams model name ts of
                  Inl e \<Rightarrow> Inl e
                | Inr rs \<Rightarrow> Inr (r # rs))))"

definition flipY :: "vec3 \<Rightarrow> vec3" where
  "flipY v = (case v of (x, y, z) \<Rightarrow> (x, y * (- 1), z))"

text \<open>The body of the inner packing loop (lines 630-642): the three floats pushed for
  vertex \<open>i\<close> and slot \<open>j\<close>.\<close>

definition packSlot ::
  "FloatOps \<Rightarrow> mat4 \<Rightarrow> f32 \<Rightarrow> 32 word \<Rightarrow> buffer_ptr list \<Rightarrow> nat \<Rightarrow> nat \<Rightarrow> f32 list" where
  "packSlot F rsMatrix globalscale normalOffs morphBuffer i j =
     (let temp = vec3_of_vec4
                   (mat4_mul_vec4 rsMatrix
                      (vec4_of_vec3 (make_vec3_at F (morphBuffer ! j) i) 1));
          temp1 = (if j < unat normalOffs then vec3_mul temp globalscale
                   else if (case temp of (x, y, z) \<Rightarrow> x \<noteq> 0 \<or> y \<noteq> 0 \<or> z \<noteq> 0)
                        then glm_normalize F temp
                        else temp)
      in case flipY temp1 of (x, y, z) \<Rightarrow> [x, y, z])"

definition packMorph ::
  "FloatOps \<Rightarrow> tinygltf_Model \<Rightarrow> mat4 \<Rightarrow> f32 \<Rightarrow> tinygltf_Primitive \<Rightarrow> Mesh \<Rightarrow> LoadState \<Rightarrow> error + (Mesh \<times> LoadState)" where
  "packMorph F model rsMatrix globalscale primitive pMesh st =
     (case morphStreams model ''POSITION'' (prim_targets primitive) of
        Inl e \<Rightarrow> Inl e
      | Inr ps \<Rightarrow>
     (case morphStreams model ''NORMAL'' (prim_targets primitive) of
        Inl e \<Rightarrow> Inl e
      | Inr ns \<Rightarrow>
     (case morphStreams model ''TANGENT'' (prim_targets primitive) of
        Inl e \<Rightarrow> Inl e
      | Inr ts \<Rightarrow>
          let morphBuffer = map snd (ps @ ns @ ts);
              morphVertexCount =
                (if ps = [] then 0 else of_nat (acc_count (fst (last ps)))) :: 32 word;
              pc = (morphPushConst pMesh)
                     \<lparr>normalOffset := of_nat (length ps),
                      tangentOffset := of_nat (length ps + length ns),
                      vertexStride := of_nat (length morphBuffer),
                      bufferOffset := of_nat (length (morphVertexData st))\<rparr>
          in if list_all (\<lambda>p. bytes_readable p (4 * (3 * unat morphVertexCount))) morphBuffer
             then Inr (pMesh\<lparr>morphPushConst := pc\<rparr>,
                       st\<lparr>morphVertexData :=
                            morphVertexData st @
                            concat (map (\<lambda>i. concat (map (packSlot F rsMatrix globalscale
                                                             (normalOffset pc) morphBuffer i)
                                                     [0..<length morphBuffer]))
                                        [0..<unat morphVertexCount])\<rparr>)
             else Inl OutOfRange)))"

section \<open>loadNode: the vertices of a primitive (lines 566-668)\<close>

text \<open>The body of the vertex loop (lines 648-660).\<close>

definition makeVertex ::
  "FloatOps \<Rightarrow> mat4 \<Rightarrow> f32 \<Rightarrow> buffer_ptr \<Rightarrow> buffer_ptr option \<Rightarrow> nat \<Rightarrow> Vertex" where
  "makeVertex F trsMatrix globalscale bufferPos bufferNormals v =
     \<lparr>pos = flipY (vec3_mul
                    (vec3_of_vec4 (mat4_mul_vec4 trsMatrix
                                     (vec4_of_vec3 (make_vec3_at F bufferPos v) 1)))
                    globalscale),
      normal = flipY (glm_normalize F
                        (mat3_mul_vec3 trsMatrix
                           (case bufferNormals of
                              None \<Rightarrow> (0, 0, 0)
                            | Some bn \<Rightarrow> make_vec3_at F bn v))),
      tangent = (0, 0, 0)\<rparr>"

text \<open>An optional attribute: no pointer when the primitive does not declare it.\<close>

definition optionalAttribute ::
  "tinygltf_Model \<Rightarrow> tinygltf_Primitive \<Rightarrow> string \<Rightarrow> error + (Accessor \<times> buffer_ptr) option" where
  "optionalAttribute model primitive name =
     (case prim_attributes primitive name of
        None \<Rightarrow> Inr None
      | Some a \<Rightarrow>
          (case accessorData model (size_t a) of
             Inl e \<Rightarrow> Inl e
           | Inr r \<Rightarrow> Inr (Some r)))"

definition pushVertices :: "bool \<Rightarrow> Vertex list \<Rightarrow> LoadState \<Rightarrow> LoadState" where
  "pushVertices morph vs st =
     (if morph then st\<lparr>vertexBufferMorph := vertexBufferMorph st @ vs\<rparr>
      else st\<lparr>vertexBufferNormal := vertexBufferNormal st @ vs\<rparr>)"

definition loadVertices ::
  "FloatOps \<Rightarrow> tinygltf_Model \<Rightarrow> mat4 \<Rightarrow> mat4 \<Rightarrow> f32 \<Rightarrow> tinygltf_Primitive \<Rightarrow> Mesh \<Rightarrow> LoadState \<Rightarrow> error + (Mesh \<times> LoadState)" where
  "loadVertices F model trsMatrix rsMatrix globalscale primitive pMesh st =
     (case prim_attributes primitive ''POSITION'' of
        None \<Rightarrow> Inl AssertionFailed
      | Some a \<Rightarrow>
     (case accessorData model (size_t a) of
        Inl e \<Rightarrow> Inl e
      | Inr (posAccessor, bufferPos) \<Rightarrow>
     (case optionalAttribute model primitive ''NORMAL'' of
        Inl e \<Rightarrow> Inl e
      | Inr normals \<Rightarrow>
     (case optionalAttribute model primitive ''TEXCOORD_0'' of
        Inl e \<Rightarrow> Inl e
      | Inr texCoords \<Rightarrow>
     (case (if isMorphTarget pMesh
            then packMorph F model rsMatrix globalscale primitive pMesh st
            else Inr (pMesh, st)) of
        Inl e \<Rightarrow> Inl e
      | Inr (m, st1) \<Rightarrow>
          if bytes_readable bufferPos (4 * (3 * acc_count posAccessor)) \<and>
             (case normals of
                None \<Rightarrow> True
              | Some (normAccessor, bn) \<Rightarrow> bytes_readable bn (4 * (3 * acc_count posAccessor)))
          then Inr (m, pushVertices (isMorphTarget pMesh)
                         (map (makeVertex F trsMatrix globalscale bufferPos
                                 (map_option snd normals))
                              [0..<acc_count posAccessor])
                         st1)
          else Inl OutOfRange)))))"

section \<open>loadNode: the indices of a primitive (lines 670-720)\<close>

text \<open>\<open>pPrimitive\<close> refers to \<open>pMesh.primitives.back()\<close>.\<close>

definition update_back :: "('a \<Rightarrow> 'a) \<Rightarrow> 'a list \<Rightarrow> 'a list" where
  "update_back f xs = (if xs = [] then [] else butlast xs @ [f (last xs)])"

text \<open>One of the three copy loops: a morph mesh takes the indices as they are, a static
  mesh takes them plus \<open>vertexStart\<close>.\<close>

definition pushIndices :: "bool \<Rightarrow> 32 word \<Rightarrow> 32 word list \<Rightarrow> LoadState \<Rightarrow> LoadState" where
  "pushIndices morph vertexStart buf st =
     (if morph then st\<lparr>indexBufferMorph := indexBufferMorph st @ buf\<rparr>
      else st\<lparr>indexBufferNormal := indexBufferNormal st @ map (\<lambda>b. b + vertexStart) buf\<rparr>)"

text \<open>The boolean of the result tells that the \<open>default:\<close> case was taken: \<open>loadNode\<close>
  has reported the component type and returned.\<close>

definition loadIndices ::
  "tinygltf_Model \<Rightarrow> tinygltf_Primitive \<Rightarrow> 32 word \<Rightarrow> Mesh \<Rightarrow> LoadState \<Rightarrow> error + (Mesh \<times> LoadState \<times> bool)" where
  "loadIndices model primitive vertexStart pMesh st =
     (case accessorData model (size_t (prim_indices primitive)) of
        Inl e \<Rightarrow> Inl e
      | Inr (accessor, p) \<Rightarrow>
          let m = pMesh\<lparr>primitives :=
                          update_back (\<lambda>pPrimitive. pPrimitive\<lparr>indexCount := of_nat (acc_count accessor)\<rparr>)
                            (primitives pMesh)\<rparr>
          in if acc_componentType accessor = TINYGLTF_PARAMETER_TYPE_UNSIGNED_INT then
               (if bytes_readable p (acc_count accessor * 4)
                then Inr (m, pushIndices (isMorphTarget pMesh) vertexStart
                               (map (u32_at p) [0..<acc_count accessor]) st, False)
                else Inl OutOfRange)
             else if acc_componentType accessor = TINYGLTF_PARAMETER_TYPE_UNSIGNED_SHORT then
               (if bytes_readable p (acc_count accessor * 2)
                then Inr (m, pushIndices (isMorphTarget pMesh) vertexStart
                               (map (u16_at p) [0..<acc_count accessor]) st, False)
                else Inl OutOfRange)
             else if acc_componentType accessor = TINYGLTF_PARAMETER_TYPE_UNSIGNED_BYTE then
               (if bytes_readable p (acc_count accessor * 1)
                then Inr (m, pushIndices (isMorphTarget pMesh) vertexStart
                               (map (u8_at p) [0..<acc_count accessor]) st, False)
                else Inl OutOfRange)
             else Inr (m, st\<lparr>cerr := cerr st @
                                 [IndexComponentTypeNotSupported (acc_componentType accessor)]\<rparr>,
                       True))"

section \<open>loadNode: the loop over the primitives (lines 550-721)\<close>

text \<open>\<open>vertexStart\<close> (line 563).\<close>

definition vertexStartOf :: "Mesh \<Rightarrow> LoadState \<Rightarrow> 32 word" where
  "vertexStartOf pMesh st =
     (if isMorphTarget pMesh then of_nat (length (vertexBufferMorph st))
      else of_nat (length (vertexBufferNormal st)))"

text \<open>Lines 556-564: the new \<open>Primitive\<close> is pushed on \<open>pMesh.primitives\<close> and
  \<open>morphVertexOffset\<close> is set from \<open>vertexStart\<close>. The product \<open>vertexStart * sizeof(Vertex)\<close>
  is stored in a \<open>uint32_t\<close>.\<close>

definition startPrimitive :: "tinygltf_Primitive \<Rightarrow> Mesh \<Rightarrow> LoadState \<Rightarrow> Mesh" where
  "startPrimitive primitive pMesh st =
     pMesh\<lparr>primitives := primitives pMesh @
                [\<lparr>firstIndex = (if isMorphTarget pMesh
                                then of_nat (length (indexBufferMorph st))
                                else of_nat (length (indexBufferNormal st))),
                  indexCount = 0,
                  material = prim_material primitive\<rparr>],
             morphVertexOffset := vertexStartOf pMesh st * of_nat sizeof_Vertex\<rparr>"

text \<open>The body of the loop for a primitive that has indices (lines 556-720).\<close>

definition loadPrimitive ::
  "FloatOps \<Rightarrow> tinygltf_Model \<Rightarrow> mat4 \<Rightarrow> mat4 \<Rightarrow> f32 \<Rightarrow> tinygltf_Primitive \<Rightarrow> Mesh \<Rightarrow> LoadState \<Rightarrow> error + (Mesh \<times> LoadState \<times> bool)" where
  "loadPrimitive F model trsMatrix rsMatrix globalscale primitive pMesh st =
     (case loadVertices F model trsMatrix rsMatrix globalscale primitive
             (startPrimitive primitive pMesh st) st of
        Inl e \<Rightarrow> Inl e
      | Inr (m, st1) \<Rightarrow> loadIndices model primitive (vertexStartOf pMesh st) m st1)"

text \<open>The loop: a primitive without indices is passed over (\<open>continue\<close>), and the
  \<open>return\<close> of the \<open>default:\<close> case ends the loop and \<open>loadNode\<close>. The boolean of the
  result tells whether the loop was left by that \<open>return\<close>.\<close>

fun loadPrimitives ::
  "FloatOps \<Rightarrow> tinygltf_Model \<Rightarrow> mat4 \<Rightarrow> mat4 \<Rightarrow> f32 \<Rightarrow> tinygltf_Primitive list \<Rightarrow> Mesh \<Rightarrow> LoadState \<Rightarrow> error + (Mesh \<times> LoadState \<times> bool)" where
  "loadPrimitives F model trs rs globalscale [] pMesh st = Inr (pMesh, st, False)"
| "loadPrimitives F model trs rs globalscale (primitive # rest) pMesh st =
     (if prim_indices primitive < 0 then loadPrimitives F model trs rs globalscale rest pMesh st
      else
        (case loadPrimitive F model trs rs globalscale primitive pMesh st of
           Inl e \<Rightarrow> Inl e
         | Inr (m, st1, returned) \<Rightarrow>
             if returned then Inr (m, st1, True)
             else loadPrimitives F model trs rs globalscale rest m st1))"

section \<open>loadNode: the mesh of a node (lines 461-722)\<close>

text \<open>
  \<open>loadNode\<close> pushes \<open>Mesh{}\<close> on \<open>meshesNormal\<close> or \<open>meshesMorph\<close> and works on it
  through the reference \<open>pMesh\<close>. Nothing else reads or writes the two collections before
  \<open>loadNode\<close> returns, so the model builds the mesh as a value and appends it in the state
  it has when \<open>loadNode\<close> returns.
\<close>

definition pushMesh :: "Mesh \<Rightarrow> LoadState \<Rightarrow> LoadState" where
  "pushMesh pMesh st =
     (if isMorphTarget pMesh then st\<lparr>meshesMorph := meshesMorph st @ [pMesh]\<rparr>
      else st\<lparr>meshesNormal := meshesNormal st @ [pMesh]\<rparr>)"

text \<open>Lines 540-547: the push constants of a static mesh are zeroed.\<close>

definition zeroPushConst :: "Mesh \<Rightarrow> Mesh" where
  "zeroPushConst pMesh =
     pMesh\<lparr>morphPushConst := (morphPushConst pMesh)
              \<lparr>bufferOffset := 0, normalOffset := 0, tangentOffset := 0, vertexStride := 0\<rparr>\<rparr>"

text \<open>The mesh after the classification and the morph or static branch (lines 469-548),
  before the loop over its primitives.\<close>

definition classifyMesh ::
  "FloatOps \<Rightarrow> tinygltf_Model \<Rightarrow> tinygltf_Mesh \<Rightarrow> nat \<Rightarrow> LoadState \<Rightarrow> error + (Mesh \<times> LoadState)" where
  "classifyMesh F model mesh nodeIndex st =
     (let pMesh = Mesh_init\<lparr>isMorphTarget := (if mesh_weights mesh = [] then False else True)\<rparr>
      in if isMorphTarget pMesh then loadWeights F model mesh nodeIndex pMesh st
         else Inr (zeroPushConst pMesh, st))"

definition loadNodeMesh ::
  "FloatOps \<Rightarrow> tinygltf_Model \<Rightarrow> Node \<Rightarrow> nat \<Rightarrow> mat4 \<Rightarrow> f32 \<Rightarrow> LoadState \<Rightarrow> error + LoadState" where
  "loadNodeMesh F model node nodeIndex localNodeTRS globalscale st =
     (if node_mesh node < 0 then Inr st
      else
        (case elem_at (model_meshes model) (size_t (node_mesh node)) of
           Inl e \<Rightarrow> Inl e
         | Inr mesh \<Rightarrow>
             (case classifyMesh F model mesh nodeIndex st of
                Inl e \<Rightarrow> Inl e
              | Inr (pMesh, st1) \<Rightarrow>
                  (case loadPrimitives F model localNodeTRS (localNodeRSMatrix F node) globalscale
                          (mesh_primitives mesh) pMesh st1 of
                     Inl e \<Rightarrow> Inl e
                   | Inr (m, st2, returned) \<Rightarrow> Inr (pushMesh m st2)))))"

section \<open>loadNode: the recursion over the children (lines 420-459)\<close>

text \<open>
  \<open>loadNode\<close> calls itself on every child before it turns to the node's own mesh. The
  scene description may name a node as its own descendant, and then the C++ never
  returns; the model counts the depth of the recursion down from \<open>fuel\<close> and is \<open>None\<close>
  when it runs out.
\<close>

fun loadNode ::
  "nat \<Rightarrow> FloatOps \<Rightarrow> tinygltf_Model \<Rightarrow> Node \<Rightarrow> nat \<Rightarrow> mat4 \<Rightarrow> f32 \<Rightarrow> LoadState \<Rightarrow> (error + LoadState) option"
and loadChildren ::
  "nat \<Rightarrow> FloatOps \<Rightarrow> tinygltf_Model \<Rightarrow> int list \<Rightarrow> mat4 \<Rightarrow> f32 \<Rightarrow> LoadState \<Rightarrow> (error + LoadState) option"
where
  "loadNode 0 F model node nodeIndex parentMatrix globalscale st = None"
| "loadNode (Suc fuel) F model node nodeIndex parentMatrix globalscale st =
     (case loadChildren fuel F model (node_children node)
             (mat4_mul parentMatrix (localNodeTRSMatrix F node)) globalscale st of
        None \<Rightarrow> None
      | Some (Inl e) \<Rightarrow> Some (Inl e)
      | Some (Inr st1) \<Rightarrow>
          Some (loadNodeMesh F model node nodeIndex
                  (mat4_mul parentMatrix (localNodeTRSMatrix F node)) globalscale st1))"
| "loadChildren fuel F model [] localNodeTRS globalscale st = Some (Inr st)"
| "loadChildren fuel F model (child # rest) localNodeTRS globalscale st =
     (case elem_at (model_nodes model) (size_t child) of
        Inl e \<Rightarrow> Some (Inl e)
      | Inr node \<Rightarrow>
          (case loadNode fuel F model node (size_t child) localNodeTRS globalscale st of
             None \<Rightarrow> None
           | Some (Inl e) \<Rightarrow> Some (Inl e)
           | Some (Inr st1) \<Rightarrow> loadChildren fuel F model rest localNodeTRS globalscale st1))"

section \<open>What the statements below speak about\<close>

text \<open>The number of vertices a primitive declares: the \<open>count\<close> of its \<open>POSITION\<close>
  accessor, which bounds the vertex loop at line 647.\<close>

definition positionCount :: "tinygltf_Model \<Rightarrow> tinygltf_Primitive \<Rightarrow> nat" where
  "positionCount model primitive =
     (case prim_attributes primitive ''POSITION'' of
        None \<Rightarrow> 0
      | Some a \<Rightarrow>
          (case accessorData model (size_t a) of
             Inl e \<Rightarrow> 0
           | Inr (posAccessor, p) \<Rightarrow> acc_count posAccessor))"

text \<open>The raw indices of a primitive: the array \<open>buf\<close> that the \<open>switch\<close> at line 679
  fills from the index accessor, for the three component types it accepts.\<close>

definition rawIndices :: "tinygltf_Model \<Rightarrow> tinygltf_Primitive \<Rightarrow> 32 word list" where
  "rawIndices model primitive =
     (case accessorData model (size_t (prim_indices primitive)) of
        Inl e \<Rightarrow> []
      | Inr (accessor, p) \<Rightarrow>
          if acc_componentType accessor = TINYGLTF_PARAMETER_TYPE_UNSIGNED_INT
          then map (u32_at p) [0..<acc_count accessor]
          else if acc_componentType accessor = TINYGLTF_PARAMETER_TYPE_UNSIGNED_SHORT
          then map (u16_at p) [0..<acc_count accessor]
          else if acc_componentType accessor = TINYGLTF_PARAMETER_TYPE_UNSIGNED_BYTE
          then map (u8_at p) [0..<acc_count accessor]
          else [])"

text \<open>The number of a primitive's morph targets that declare the stream \<open>name\<close>.\<close>

definition streamCount :: "string \<Rightarrow> tinygltf_Primitive \<Rightarrow> nat" where
  "streamCount name primitive =
     length (filter (\<lambda>t. t name \<noteq> None) (prim_targets primitive))"

text \<open>The channels of all animations, each with its animation, in the order
  "animations in order, and each animation's channels in order"; and the first of them
  that targets the node with the path \<open>weights\<close>.\<close>

definition weightsChannels :: "Animation list \<Rightarrow> (Animation \<times> AnimationChannel) list" where
  "weightsChannels animations =
     concat (map (\<lambda>animation. map (Pair animation) (anim_channels animation)) animations)"

definition firstWeightsChannel ::
  "Animation list \<Rightarrow> nat \<Rightarrow> (Animation \<times> AnimationChannel) option" where
  "firstWeightsChannel animations nodeIndex =
     find (\<lambda>ac. channelMatches nodeIndex (snd ac)) (weightsChannels animations)"

text \<open>A static mesh whose four morph push-constant fields are zero.\<close>

definition zeroedStatic :: "Mesh \<Rightarrow> bool" where
  "zeroedStatic m =
     (\<not> isMorphTarget m \<and>
      bufferOffset (morphPushConst m) = 0 \<and> normalOffset (morphPushConst m) = 0 \<and>
      tangentOffset (morphPushConst m) = 0 \<and> vertexStride (morphPushConst m) = 0)"


section \<open>A small scene\<close>

text \<open>
  Concrete inputs on which the theorems below are run. The floats of the example are
  decoded by a stand-in: a group of four bytes denotes the signed value of its first
  byte. Doubles convert to themselves and \<open>glm::normalize\<close> is the identity (the only
  vector the example normalizes is the zero normal of a primitive without normals).
\<close>

definition exampleFloatOps :: FloatOps where
  "exampleFloatOps =
     \<lparr>f32_of_bytes = (\<lambda>bs. case bs of [] \<Rightarrow> 0 | b # _ \<Rightarrow> real_of_int (sint b)),
      f32_of_double = (\<lambda>d. d),
      glm_normalize = (\<lambda>v. v)\<rparr>"

text \<open>A primitive with one vertex at \<open>(1, 2, 3)\<close>, read through accessor 0, the index
  \<open>0\<close> as one unsigned byte (accessor 1), and two morph targets that both use accessor 0
  as their \<open>POSITION\<close> deltas.\<close>

definition examplePrimitive :: tinygltf_Primitive where
  "examplePrimitive =
     \<lparr>prim_attributes = [''POSITION'' \<mapsto> 0],
      prim_targets = [[''POSITION'' \<mapsto> 0], [''POSITION'' \<mapsto> 0]],
      prim_indices = 1,
      prim_material = 0\<rparr>"

text \<open>The same with a single morph target.\<close>

definition singleTargetPrimitive :: tinygltf_Primitive where
  "singleTargetPrimitive =
     \<lparr>prim_attributes = [''POSITION'' \<mapsto> 0],
      prim_targets = [[''POSITION'' \<mapsto> 0]],
      prim_indices = 1,
      prim_material = 0\<rparr>"

text \<open>The same with indices of component type 5122 (signed short, accessor 2), which
  the loader does not support.\<close>

definition faultyPrimitive :: tinygltf_Primitive where
  "faultyPrimitive =
     \<lparr>prim_attributes = [''POSITION'' \<mapsto> 0],
      prim_targets = [],
      prim_indices = 2,
      prim_material = 0\<rparr>"

text \<open>Mesh 0 is static, mesh 1 has the initial weights \<open>[0.5, 0.5]\<close>, and mesh 2 is
  static with the faulty primitive between two good ones; there is no animation. Node
  \<open>i\<close> carries mesh \<open>i\<close>, without a transform of its own.\<close>

definition exampleModel :: tinygltf_Model where
  "exampleModel =
     \<lparr>model_accessors =
        [\<lparr>acc_bufferView = 0, acc_byteOffset = 0, acc_componentType = 5126, acc_count = 1\<rparr>,
         \<lparr>acc_bufferView = 1, acc_byteOffset = 0, acc_componentType = 5121, acc_count = 1\<rparr>,
         \<lparr>acc_bufferView = 1, acc_byteOffset = 0, acc_componentType = 5122, acc_count = 1\<rparr>],
      model_bufferViews =
        [\<lparr>view_buffer = 0, view_byteOffset = 0\<rparr>, \<lparr>view_buffer = 0, view_byteOffset = 12\<rparr>],
      model_buffers = [\<lparr>buf_data = [1, 0, 0, 0, 2, 0, 0, 0, 3, 0, 0, 0, 0]\<rparr>],
      model_meshes =
        [\<lparr>mesh_weights = [], mesh_primitives = [examplePrimitive]\<rparr>,
         \<lparr>mesh_weights = [1 / 2, 1 / 2], mesh_primitives = [examplePrimitive]\<rparr>,
         \<lparr>mesh_weights = [],
          mesh_primitives = [examplePrimitive, faultyPrimitive, examplePrimitive]\<rparr>],
      model_nodes =
        [\<lparr>node_translation = [], node_rotation = [], node_scale = [], node_matrix = [],
          node_children = [], node_mesh = 0\<rparr>,
         \<lparr>node_translation = [], node_rotation = [], node_scale = [], node_matrix = [],
          node_children = [], node_mesh = 1\<rparr>,
         \<lparr>node_translation = [], node_rotation = [], node_scale = [], node_matrix = [],
          node_children = [], node_mesh = 2\<rparr>],
      model_animations = []\<rparr>"

definition staticNode :: Node where
  "staticNode =
     \<lparr>node_translation = [], node_rotation = [], node_scale = [], node_matrix = [],
      node_children = [], node_mesh = 0\<rparr>"

definition morphNode :: Node where
  "morphNode =
     \<lparr>node_translation = [], node_rotation = [], node_scale = [], node_matrix = [],
      node_children = [], node_mesh = 1\<rparr>"

definition faultyNode :: Node where
  "faultyNode =
     \<lparr>node_translation = [], node_rotation = [], node_scale = [], node_matrix = [],
      node_children = [], node_mesh = 2\<rparr>"

text \<open>A node that gives its transform as an explicit matrix: the identity with the
  translation \<open>(5, 0, 0)\<close> in the fourth column.\<close>

definition translatedNode :: Node where
  "translatedNode =
     \<lparr>node_translation = [], node_rotation = [], node_scale = [],
      node_matrix = [1, 0, 0, 0, 0, 1, 0, 0, 0, 0, 1, 0, 5, 0, 0, 1],
      node_children = [], node_mesh = 1\<rparr>"


text \<open>The state before anything is loaded, and the vertex the example primitive yields
  (its \<open>y\<close> negated).\<close>

definition emptyState :: LoadState where
  "emptyState =
     \<lparr>meshesMorph = [], meshesNormal = [], morphVertexData = [], animationMaxTime = 0,
      vertexBufferMorph = [], indexBufferMorph = [], vertexBufferNormal = [],
      indexBufferNormal = [], cerr = []\<rparr>"

definition exampleVertex :: Vertex where
  "exampleVertex = \<lparr>pos = (1, - 2, 3), normal = (0, 0, 0), tangent = (0, 0, 0)\<rparr>"

text \<open>The mesh and the state after the example primitive has been loaded into a fresh
  morph mesh, and into a fresh static mesh.\<close>

definition loadedMorphMesh :: Mesh where
  "loadedMorphMesh =
     Mesh_init\<lparr>isMorphTarget := True,
               morphPushConst :=
                 \<lparr>bufferOffset = 0, normalOffset = 2, tangentOffset = 2, vertexStride = 2,
                  weights = replicate MAX_WEIGHTS 0\<rparr>,
               primitives := [\<lparr>firstIndex = 0, indexCount = 1, material = 0\<rparr>]\<rparr>"

definition loadedMorphState :: LoadState where
  "loadedMorphState =
     emptyState\<lparr>morphVertexData := [1, - 2, 3, 1, - 2, 3],
                vertexBufferMorph := [exampleVertex],
                indexBufferMorph := [0]\<rparr>"

definition loadedStaticMesh :: Mesh where
  "loadedStaticMesh =
     Mesh_init\<lparr>primitives := [\<lparr>firstIndex = 0, indexCount = 1, material = 0\<rparr>]\<rparr>"

definition loadedStaticState :: LoadState where
  "loadedStaticState =
     emptyState\<lparr>vertexBufferNormal := [exampleVertex], indexBufferNormal := [0]\<rparr>"

text \<open>The states after node 1 (the morph mesh) and after node 0 (the static mesh) of the
  example have been loaded into the empty state.\<close>

definition loadedMorphNodeState :: LoadState where
  "loadedMorphNodeState =
     loadedMorphState\<lparr>meshesMorph := [loadedMorphMesh\<lparr>weightsInit := [1 / 2, 1 / 2]\<rparr>]\<rparr>"

definition loadedStaticNodeState :: LoadState where
  "loadedStaticNodeState = loadedStaticState\<lparr>meshesNormal := [loadedStaticMesh]\<rparr>"

text \<open>A node without a mesh whose only child is node 0.\<close>

definition rootNode :: Node where
  "rootNode =
     \<lparr>node_translation = [], node_rotation = [], node_scale = [], node_matrix = [],
      node_children = [0], node_mesh = - 1\<rparr>"

text \<open>The mesh and the state after the example primitive has been loaded a second time
  into the same static mesh, and into the same morph mesh.\<close>

definition twoStaticMesh :: Mesh where
  "twoStaticMesh =
     loadedStaticMesh\<lparr>primitives := [\<lparr>firstIndex = 0, indexCount = 1, material = 0\<rparr>,
                                      \<lparr>firstIndex = 1, indexCount = 1, material = 0\<rparr>],
                      morphVertexOffset := 36\<rparr>"

definition twoStaticState :: LoadState where
  "twoStaticState =
     loadedStaticState\<lparr>vertexBufferNormal := [exampleVertex, exampleVertex],
                       indexBufferNormal := [0, 1]\<rparr>"

definition twoMorphMesh :: Mesh where
  "twoMorphMesh =
     loadedMorphMesh\<lparr>primitives := [\<lparr>firstIndex = 0, indexCount = 1, material = 0\<rparr>,
                                     \<lparr>firstIndex = 1, indexCount = 1, material = 0\<rparr>],
                     morphVertexOffset := 36,
                     morphPushConst :=
                       \<lparr>bufferOffset = 6, normalOffset = 2, tangentOffset = 2, vertexStride = 2,
                        weights = replicate MAX_WEIGHTS 0\<rparr>\<rparr>"

definition twoMorphState :: LoadState where
  "twoMorphState =
     loadedMorphState\<lparr>morphVertexData := [1, - 2, 3, 1, - 2, 3, 1, - 2, 3, 1, - 2, 3],
                      vertexBufferMorph := [exampleVertex, exampleVertex],
                      indexBufferMorph := [0, 0]\<rparr>"

text \<open>The state after the example primitive and then the faulty primitive have been
  loaded into a static mesh: two vertices, one index, one message.\<close>

definition faultyState :: LoadState where
  "faultyState =
     loadedStaticState\<lparr>vertexBufferNormal := [exampleVertex, exampleVertex],
                       cerr := [IndexComponentTypeNotSupported 5122]\<rparr>"

section \<open>Properties of the parts of loadNode\<close>

subsection \<open>The local matrices\<close>

text \<open>A node given by translation, rotation and scale has a rotation-and-scale matrix
  without translation.\<close>

lemma col3_rotation: "col3 (rotation F node) = (0, 0, 0, 1)"
  by (simp add: rotation_def mat4_cast_def mat4_diag_def col3_def split: prod.splits)

lemma localNodeRSMatrix_no_translation:
  "length (node_matrix node) \<noteq> 16 \<Longrightarrow> col3 (localNodeRSMatrix F node) = (0, 0, 0, 1)"
proof -
  assume m: "length (node_matrix node) \<noteq> 16"
  obtain a b c d where r: "rotation F node = (a, b, c, d)"
    by (cases "rotation F node") auto
  have d: "d = (0, 0, 0, 1)"
    using col3_rotation [of F node] by (simp add: r col3_def)
  obtain x y z where s: "scale F node = (x, y, z)"
    by (cases "scale F node") auto
  show ?thesis
    using m
    by (simp add: localNodeRSMatrix_def r d s mat4_mul_def mat4_mul_vec4_def glm_scale_def
        mat4_diag_def col0_def col1_def col2_def col3_def vec4_add_def vec4_mul_def
        split: prod.splits)
qed

subsection \<open>One primitive: what it changes and what it leaves alone\<close>

text \<open>For each step of the loop body, the fields of the mesh and of the state that the
  step leaves as they are, and the growth of the vertex and index sequences.\<close>

lemma update_back_snoc: "update_back f (xs @ [x]) = xs @ [f x]"
  by (simp add: update_back_def)

lemma loadIndices_mesh:
  "loadIndices model p vs pMesh st = Inr (m, st', r) \<Longrightarrow>
   \<exists>n. m = pMesh\<lparr>primitives := update_back (indexCount_update (\<lambda>_. n)) (primitives pMesh)\<rparr>"
  by (auto simp: loadIndices_def Let_def split: sum.splits prod.splits if_splits)

lemma loadIndices_state:
  "loadIndices model p vs pMesh st = Inr (m, st', r) \<Longrightarrow>
   (if r then st' = st\<lparr>cerr := cerr st @
        [IndexComponentTypeNotSupported
           (acc_componentType (fst (projr (accessorData model (size_t (prim_indices p))))))]\<rparr>
    else st' = pushIndices (isMorphTarget pMesh) vs (rawIndices model p) st)"
  by (auto simp: loadIndices_def rawIndices_def Let_def split: sum.splits prod.splits if_splits)

lemma packMorph_mesh:
  "packMorph F model rs gs p pMesh st = Inr (m, st') \<Longrightarrow>
   \<exists>pc. m = pMesh\<lparr>morphPushConst := pc\<rparr> \<and> weights pc = weights (morphPushConst pMesh)"
  by (auto simp: packMorph_def Let_def split: sum.splits prod.splits if_splits)

lemma packMorph_frame:
  "packMorph F model rs gs p pMesh st = Inr (m, st') \<Longrightarrow>
   meshesMorph st' = meshesMorph st \<and> meshesNormal st' = meshesNormal st \<and>
   animationMaxTime st' = animationMaxTime st \<and>
   vertexBufferMorph st' = vertexBufferMorph st \<and> vertexBufferNormal st' = vertexBufferNormal st \<and>
   indexBufferMorph st' = indexBufferMorph st \<and> indexBufferNormal st' = indexBufferNormal st \<and>
   cerr st' = cerr st"
  by (auto simp: packMorph_def Let_def split: sum.splits prod.splits if_splits)

lemma loadVertices_mesh:
  "loadVertices F model trs rs gs p pMesh st = Inr (m, st') \<Longrightarrow>
   (if isMorphTarget pMesh
    then \<exists>pc. m = pMesh\<lparr>morphPushConst := pc\<rparr> \<and> weights pc = weights (morphPushConst pMesh)
    else m = pMesh)"
  by (auto simp: loadVertices_def Let_def dest!: packMorph_mesh split: sum.splits prod.splits if_splits option.splits)

lemma loadVertices_elim:
  assumes "loadVertices F model trs rs gs p pMesh st = Inr (m, st')"
  obtains a posAccessor bufferPos normals st1 where
    "prim_attributes p ''POSITION'' = Some a"
    "accessorData model (size_t a) = Inr (posAccessor, bufferPos)"
    "(if isMorphTarget pMesh then packMorph F model rs gs p pMesh st else Inr (pMesh, st))
       = Inr (m, st1)"
    "st' = pushVertices (isMorphTarget pMesh)
             (map (makeVertex F trs gs bufferPos normals) [0..<acc_count posAccessor]) st1"
  using assms
  by (simp add: loadVertices_def split: option.splits sum.splits prod.splits if_splits) blast+

lemma loadVertices_frame:
  assumes "loadVertices F model trs rs gs p pMesh st = Inr (m, st')"
  shows "meshesMorph st' = meshesMorph st \<and> meshesNormal st' = meshesNormal st \<and>
   animationMaxTime st' = animationMaxTime st \<and>
   indexBufferMorph st' = indexBufferMorph st \<and> indexBufferNormal st' = indexBufferNormal st \<and>
   cerr st' = cerr st \<and>
   (isMorphTarget pMesh \<longrightarrow> vertexBufferNormal st' = vertexBufferNormal st) \<and>
   (\<not> isMorphTarget pMesh \<longrightarrow>
      vertexBufferMorph st' = vertexBufferMorph st \<and> morphVertexData st' = morphVertexData st)"
proof -
  from assms obtain a posAccessor bufferPos normals st1 where
    a: "prim_attributes p ''POSITION'' = Some a"
    and acc: "accessorData model (size_t a) = Inr (posAccessor, bufferPos)"
    and pk: "(if isMorphTarget pMesh then packMorph F model rs gs p pMesh st else Inr (pMesh, st))
       = Inr (m, st1)"
    and st': "st' = pushVertices (isMorphTarget pMesh)
             (map (makeVertex F trs gs bufferPos normals) [0..<acc_count posAccessor]) st1"
    by (rule loadVertices_elim)
  show ?thesis
  proof (cases "isMorphTarget pMesh")
    case True
    with pk have "packMorph F model rs gs p pMesh st = Inr (m, st1)" by simp
    from packMorph_frame [OF this] show ?thesis
      by (simp add: st' pushVertices_def True)
  next
    case False
    with pk have "st1 = st" by simp
    then show ?thesis by (simp add: st' pushVertices_def False)
  qed
qed

lemma loadVertices_vbuf:
  assumes "loadVertices F model trs rs gs p pMesh st = Inr (m, st')"
  shows "\<exists>vs. length vs = positionCount model p \<and>
     (if isMorphTarget pMesh then vertexBufferMorph st' = vertexBufferMorph st @ vs
      else vertexBufferNormal st' = vertexBufferNormal st @ vs)"
proof -
  from assms obtain a posAccessor bufferPos normals st1 where
    a: "prim_attributes p ''POSITION'' = Some a"
    and acc: "accessorData model (size_t a) = Inr (posAccessor, bufferPos)"
    and pk: "(if isMorphTarget pMesh then packMorph F model rs gs p pMesh st else Inr (pMesh, st))
       = Inr (m, st1)"
    and st': "st' = pushVertices (isMorphTarget pMesh)
             (map (makeVertex F trs gs bufferPos normals) [0..<acc_count posAccessor]) st1"
    by (rule loadVertices_elim)
  have n: "positionCount model p = acc_count posAccessor"
    by (simp add: positionCount_def a acc)
  show ?thesis
  proof (cases "isMorphTarget pMesh")
    case True
    with pk have "packMorph F model rs gs p pMesh st = Inr (m, st1)" by simp
    from packMorph_frame [OF this] show ?thesis
      by (simp add: st' pushVertices_def True n)
  next
    case False
    with pk have "st1 = st" by simp
    then show ?thesis by (simp add: st' pushVertices_def False n)
  qed
qed

lemma startPrimitive_fields [simp]:
  "isMorphTarget (startPrimitive p pMesh st) = isMorphTarget pMesh"
  "weightsInit (startPrimitive p pMesh st) = weightsInit pMesh"
  "weightsTime (startPrimitive p pMesh st) = weightsTime pMesh"
  "weightsData (startPrimitive p pMesh st) = weightsData pMesh"
  "morphPushConst (startPrimitive p pMesh st) = morphPushConst pMesh"
  "morphVertexOffset (startPrimitive p pMesh st) = vertexStartOf pMesh st * of_nat sizeof_Vertex"
  by (simp_all add: startPrimitive_def)

lemma loadPrimitive_elim:
  assumes "loadPrimitive F model trs rs gs p pMesh st = Inr (m, st', r)"
  obtains m2 st2 where
    "loadVertices F model trs rs gs p (startPrimitive p pMesh st) st = Inr (m2, st2)"
    "loadIndices model p (vertexStartOf pMesh st) m2 st2 = Inr (m, st', r)"
  using assms
  by (simp add: loadPrimitive_def split: sum.splits prod.splits)

lemma loadPrimitive_mesh:
  assumes "loadPrimitive F model trs rs gs p pMesh st = Inr (m, st', r)"
  shows "isMorphTarget m = isMorphTarget pMesh \<and>
         weightsInit m = weightsInit pMesh \<and> weightsTime m = weightsTime pMesh \<and>
         weightsData m = weightsData pMesh \<and>
         weights (morphPushConst m) = weights (morphPushConst pMesh) \<and>
         morphVertexOffset m = vertexStartOf pMesh st * of_nat sizeof_Vertex \<and>
         (\<not> isMorphTarget pMesh \<longrightarrow> morphPushConst m = morphPushConst pMesh)"
proof -
  from assms obtain m2 st2 where
    v: "loadVertices F model trs rs gs p (startPrimitive p pMesh st) st = Inr (m2, st2)"
    and i: "loadIndices model p (vertexStartOf pMesh st) m2 st2 = Inr (m, st', r)"
    by (rule loadPrimitive_elim)
  from loadIndices_mesh [OF i] obtain n where
    m: "m = m2\<lparr>primitives := update_back (indexCount_update (\<lambda>_. n)) (primitives m2)\<rparr>"
    by blast
  show ?thesis
    using loadVertices_mesh [OF v]
    by (cases "isMorphTarget pMesh") (auto simp: m)
qed

lemma loadPrimitive_frame:
  assumes "loadPrimitive F model trs rs gs p pMesh st = Inr (m, st', r)"
  shows "meshesMorph st' = meshesMorph st \<and> meshesNormal st' = meshesNormal st \<and>
   animationMaxTime st' = animationMaxTime st \<and>
   (isMorphTarget pMesh \<longrightarrow> vertexBufferNormal st' = vertexBufferNormal st \<and>
      indexBufferNormal st' = indexBufferNormal st) \<and>
   (\<not> isMorphTarget pMesh \<longrightarrow>
      vertexBufferMorph st' = vertexBufferMorph st \<and> indexBufferMorph st' = indexBufferMorph st \<and>
      morphVertexData st' = morphVertexData st)"
proof -
  from assms obtain m2 st2 where
    v: "loadVertices F model trs rs gs p (startPrimitive p pMesh st) st = Inr (m2, st2)"
    and i: "loadIndices model p (vertexStartOf pMesh st) m2 st2 = Inr (m, st', r)"
    by (rule loadPrimitive_elim)
  have im: "isMorphTarget m2 = isMorphTarget pMesh"
    using loadVertices_mesh [OF v] by (auto split: if_splits)
  show ?thesis
    using loadVertices_frame [OF v] loadIndices_state [OF i]
    by (cases r; cases "isMorphTarget pMesh") (simp_all add: im pushIndices_def)
qed

lemma loadPrimitive_vbuf:
  assumes "loadPrimitive F model trs rs gs p pMesh st = Inr (m, st', r)"
  shows "\<exists>vs. length vs = positionCount model p \<and>
     (if isMorphTarget pMesh then vertexBufferMorph st' = vertexBufferMorph st @ vs
      else vertexBufferNormal st' = vertexBufferNormal st @ vs)"
proof -
  from assms obtain m2 st2 where
    v: "loadVertices F model trs rs gs p (startPrimitive p pMesh st) st = Inr (m2, st2)"
    and i: "loadIndices model p (vertexStartOf pMesh st) m2 st2 = Inr (m, st', r)"
    by (rule loadPrimitive_elim)
  have im: "isMorphTarget m2 = isMorphTarget pMesh"
    using loadVertices_mesh [OF v] by (auto split: if_splits)
  have "vertexBufferMorph st' = vertexBufferMorph st2 \<and> vertexBufferNormal st' = vertexBufferNormal st2"
    using loadIndices_state [OF i] by (cases r) (simp_all add: pushIndices_def)
  then show ?thesis
    using loadVertices_vbuf [OF v] by (cases "isMorphTarget pMesh") auto
qed

lemma loadPrimitive_ibuf:
  assumes "loadPrimitive F model trs rs gs p pMesh st = Inr (m, st', r)"
  shows "if r
         then indexBufferMorph st' = indexBufferMorph st \<and>
              indexBufferNormal st' = indexBufferNormal st \<and>
              (\<exists>c. cerr st' = cerr st @ [IndexComponentTypeNotSupported c])
         else cerr st' = cerr st \<and>
              (if isMorphTarget pMesh
               then indexBufferMorph st' = indexBufferMorph st @ rawIndices model p
               else indexBufferNormal st' =
                      indexBufferNormal st @
                      map (\<lambda>b. b + vertexStartOf pMesh st) (rawIndices model p))"
proof -
  from assms obtain m2 st2 where
    v: "loadVertices F model trs rs gs p (startPrimitive p pMesh st) st = Inr (m2, st2)"
    and i: "loadIndices model p (vertexStartOf pMesh st) m2 st2 = Inr (m, st', r)"
    by (rule loadPrimitive_elim)
  have im: "isMorphTarget m2 = isMorphTarget pMesh"
    using loadVertices_mesh [OF v] by (auto split: if_splits)
  show ?thesis
    using loadVertices_frame [OF v] loadIndices_state [OF i]
    by (cases r; cases "isMorphTarget pMesh") (simp_all add: im pushIndices_def)
qed

subsection \<open>The loop over the primitives\<close>

lemma loadPrimitives_append:
  "loadPrimitives F model trs rs gs (ps1 @ ps2) pMesh st =
     (case loadPrimitives F model trs rs gs ps1 pMesh st of
        Inl e \<Rightarrow> Inl e
      | Inr (m, st1, returned) \<Rightarrow>
          if returned then Inr (m, st1, True)
          else loadPrimitives F model trs rs gs ps2 m st1)"
proof (induction ps1 arbitrary: pMesh st)
  case Nil
  show ?case by simp
next
  case (Cons p ps1)
  show ?case
    by (simp add: Cons.IH split: sum.splits prod.splits)
qed


lemma loadPrimitives_mesh:
  "loadPrimitives F model trs rs gs ps pMesh st = Inr (m, st', r) \<Longrightarrow>
     isMorphTarget m = isMorphTarget pMesh \<and>
     weightsInit m = weightsInit pMesh \<and> weightsTime m = weightsTime pMesh \<and>
     weightsData m = weightsData pMesh \<and>
     weights (morphPushConst m) = weights (morphPushConst pMesh) \<and>
     (\<not> isMorphTarget pMesh \<longrightarrow> morphPushConst m = morphPushConst pMesh)"
proof (induction ps arbitrary: pMesh st)
  case Nil
  then show ?case by simp
next
  case (Cons p ps)
  show ?case
  proof (cases "prim_indices p < 0")
    case True
    with Cons.prems have "loadPrimitives F model trs rs gs ps pMesh st = Inr (m, st', r)"
      by simp
    from Cons.IH [OF this] show ?thesis .
  next
    case False
    with Cons.prems obtain m1 st1 r1 where
      one: "loadPrimitive F model trs rs gs p pMesh st = Inr (m1, st1, r1)"
      and rest: "if r1 then (m, st', r) = (m1, st1, True)
                 else loadPrimitives F model trs rs gs ps m1 st1 = Inr (m, st', r)"
      by (auto split: sum.splits prod.splits if_splits)
    note h = loadPrimitive_mesh [OF one]
    show ?thesis
    proof (cases r1)
      case True
      with rest h show ?thesis by simp
    next
      case False
      with rest have "loadPrimitives F model trs rs gs ps m1 st1 = Inr (m, st', r)" by simp
      from Cons.IH [OF this] h show ?thesis by simp
    qed
  qed
qed

lemma loadPrimitives_frame:
  "loadPrimitives F model trs rs gs ps pMesh st = Inr (m, st', r) \<Longrightarrow>
     meshesMorph st' = meshesMorph st \<and> meshesNormal st' = meshesNormal st \<and>
     animationMaxTime st' = animationMaxTime st \<and>
     (isMorphTarget pMesh \<longrightarrow> vertexBufferNormal st' = vertexBufferNormal st \<and>
        indexBufferNormal st' = indexBufferNormal st) \<and>
     (\<not> isMorphTarget pMesh \<longrightarrow>
        vertexBufferMorph st' = vertexBufferMorph st \<and> indexBufferMorph st' = indexBufferMorph st \<and>
        morphVertexData st' = morphVertexData st)"
proof (induction ps arbitrary: pMesh st)
  case Nil
  then show ?case by simp
next
  case (Cons p ps)
  show ?case
  proof (cases "prim_indices p < 0")
    case True
    with Cons.prems have "loadPrimitives F model trs rs gs ps pMesh st = Inr (m, st', r)"
      by simp
    from Cons.IH [OF this] show ?thesis .
  next
    case False
    with Cons.prems obtain m1 st1 r1 where
      one: "loadPrimitive F model trs rs gs p pMesh st = Inr (m1, st1, r1)"
      and rest: "if r1 then (m, st', r) = (m1, st1, True)
                 else loadPrimitives F model trs rs gs ps m1 st1 = Inr (m, st', r)"
      by (auto split: sum.splits prod.splits if_splits)
    note h = loadPrimitive_frame [OF one]
    have im: "isMorphTarget m1 = isMorphTarget pMesh"
      using loadPrimitive_mesh [OF one] by simp
    show ?thesis
    proof (cases r1)
      case True
      with rest h show ?thesis by simp
    next
      case False
      with rest have "loadPrimitives F model trs rs gs ps m1 st1 = Inr (m, st', r)" by simp
      from Cons.IH [OF this] h show ?thesis by (simp add: im)
    qed
  qed
qed

subsection \<open>The animation binder and the classification\<close>

text \<open>The nested loops find the first matching channel of \<open>weightsChannels\<close>.\<close>

lemma scanChannels_find:
  "scanChannels animation nodeIndex channels pMesh =
     (case find (channelMatches nodeIndex) channels of
        None \<Rightarrow> Inr (pMesh, False)
      | Some channel \<Rightarrow>
          (case bindChannel animation channel pMesh of
             Inl e \<Rightarrow> Inl e
           | Inr m \<Rightarrow> Inr (m, True)))"
  by (induction channels) simp_all

lemma find_map_Pair:
  "find (\<lambda>ac. P (snd ac)) (map (Pair a) xs) = map_option (Pair a) (find P xs)"
  by (induction xs) simp_all

lemma find_append:
  "find P (xs @ ys) = (case find P xs of None \<Rightarrow> find P ys | Some x \<Rightarrow> Some x)"
  by (induction xs) simp_all

lemma scanAnimations_first:
  "scanAnimations animations nodeIndex pMesh =
     (case firstWeightsChannel animations nodeIndex of
        None \<Rightarrow> Inr (pMesh, False)
      | Some (animation, channel) \<Rightarrow>
          (case bindChannel animation channel pMesh of
             Inl e \<Rightarrow> Inl e
           | Inr m \<Rightarrow> Inr (m, True)))"
proof (induction animations)
  case Nil
  show ?case by (simp add: firstWeightsChannel_def weightsChannels_def)
next
  case (Cons a as)
  show ?case
  proof (cases "find (channelMatches nodeIndex) (anim_channels a)")
    case None
    then show ?thesis
      using Cons.IH
      by (simp add: scanChannels_find firstWeightsChannel_def weightsChannels_def
          find_append find_map_Pair)
  next
    case (Some c)
    then show ?thesis
      by (simp add: scanChannels_find firstWeightsChannel_def weightsChannels_def
          find_append find_map_Pair split: sum.splits)
  qed
qed

lemma firstWeightsChannel_None:
  "firstWeightsChannel animations nodeIndex = None \<longleftrightarrow>
   (\<forall>a \<in> set animations. \<forall>c \<in> set (anim_channels a). \<not> channelMatches nodeIndex c)"
  by (auto simp: firstWeightsChannel_def weightsChannels_def find_None_iff)

lemma bindChannel_mesh:
  "bindChannel animation channel pMesh = Inr m \<Longrightarrow>
   isMorphTarget m = isMorphTarget pMesh \<and> weightsInit m = weightsInit pMesh \<and>
   weightsTime m = weightsTime pMesh \<and> weightsData m = weightsData pMesh \<and>
   morphPushConst m = morphPushConst pMesh \<and> primitives m = primitives pMesh \<and>
   morphVertexOffset m = morphVertexOffset pMesh"
  by (auto simp: bindChannel_def split: sum.splits)

lemma scanAnimations_mesh:
  assumes "scanAnimations animations nodeIndex pMesh = Inr (m, found)"
  shows "isMorphTarget m = isMorphTarget pMesh \<and> weightsInit m = weightsInit pMesh \<and>
   weightsTime m = weightsTime pMesh \<and> weightsData m = weightsData pMesh \<and>
   morphPushConst m = morphPushConst pMesh \<and> primitives m = primitives pMesh \<and>
   morphVertexOffset m = morphVertexOffset pMesh"
  using assms
  by (auto simp: scanAnimations_first split: option.splits sum.splits prod.splits
      dest: bindChannel_mesh)

lemma loadWeights_mesh:
  assumes "loadWeights F model mesh nodeIndex pMesh st = Inr (m, st')"
  shows "isMorphTarget m = isMorphTarget pMesh \<and>
         weightsInit m = weightsInit pMesh @ map (f32_of_double F) (take MAX_WEIGHTS (mesh_weights mesh)) \<and>
         morphPushConst m = morphPushConst pMesh \<and>
         meshesMorph st' = meshesMorph st \<and> meshesNormal st' = meshesNormal st \<and>
         (firstWeightsChannel (model_animations model) nodeIndex = None \<longrightarrow>
            weightsTime m = [] \<and> weightsData m = [] \<and> st' = st)"
proof -
  from assms obtain m0 found where
    s: "scanAnimations (model_animations model) nodeIndex pMesh = Inr (m0, found)"
    by (auto simp: loadWeights_def split: sum.splits)
  note h = scanAnimations_mesh [OF s]
  have f: "firstWeightsChannel (model_animations model) nodeIndex = None \<Longrightarrow> \<not> found"
    using s by (simp add: scanAnimations_first)
  show ?thesis
    using assms h f
    by (auto simp: loadWeights_def s Let_def split: sum.splits if_splits)
qed

lemma classifyMesh_mesh:
  assumes "classifyMesh F model mesh nodeIndex st = Inr (pMesh, st')"
  shows "isMorphTarget pMesh = (mesh_weights mesh \<noteq> []) \<and>
         meshesMorph st' = meshesMorph st \<and> meshesNormal st' = meshesNormal st \<and>
         weights (morphPushConst pMesh) = replicate MAX_WEIGHTS 0 \<and>
         (mesh_weights mesh = [] \<longrightarrow>
            bufferOffset (morphPushConst pMesh) = 0 \<and> normalOffset (morphPushConst pMesh) = 0 \<and>
            tangentOffset (morphPushConst pMesh) = 0 \<and> vertexStride (morphPushConst pMesh) = 0) \<and>
         (mesh_weights mesh \<noteq> [] \<longrightarrow>
            weightsInit pMesh = map (f32_of_double F) (take MAX_WEIGHTS (mesh_weights mesh)) \<and>
            (firstWeightsChannel (model_animations model) nodeIndex = None \<longrightarrow>
               weightsTime pMesh = [] \<and> weightsData pMesh = []))"
proof (cases "mesh_weights mesh = []")
  case True
  with assms show ?thesis
    by (auto simp: classifyMesh_def Let_def zeroPushConst_def Mesh_init_def)
next
  case False
  with assms have
    "loadWeights F model mesh nodeIndex (Mesh_init\<lparr>isMorphTarget := True\<rparr>) st = Inr (pMesh, st')"
    by (simp add: classifyMesh_def Let_def)
  from loadWeights_mesh [OF this] False show ?thesis
    by (simp add: Mesh_init_def)
qed

subsection \<open>The packer\<close>

lemma morphStreams_length:
  "morphStreams model name ts = Inr rs \<Longrightarrow>
   length rs = length (filter (\<lambda>t. t name \<noteq> None) ts)"
  by (induction ts arbitrary: rs) (auto split: option.splits sum.splits)

lemma packMorph_offsets:
  assumes "packMorph F model rs gs p pMesh st = Inr (m, st')"
  shows "normalOffset (morphPushConst m) = of_nat (streamCount ''POSITION'' p) \<and>
         tangentOffset (morphPushConst m) =
           of_nat (streamCount ''POSITION'' p + streamCount ''NORMAL'' p) \<and>
         vertexStride (morphPushConst m) =
           of_nat (streamCount ''POSITION'' p + streamCount ''NORMAL'' p +
                   streamCount ''TANGENT'' p) \<and>
         bufferOffset (morphPushConst m) = of_nat (length (morphVertexData st))"
proof -
  from assms obtain ps ns ts where
    ps: "morphStreams model ''POSITION'' (prim_targets p) = Inr ps"
    and ns: "morphStreams model ''NORMAL'' (prim_targets p) = Inr ns"
    and ts: "morphStreams model ''TANGENT'' (prim_targets p) = Inr ts"
    by (auto simp: packMorph_def split: sum.splits)
  show ?thesis
    using assms morphStreams_length [OF ps] morphStreams_length [OF ns]
      morphStreams_length [OF ts]
    by (auto simp: packMorph_def ps ns ts Let_def streamCount_def split: if_splits)
qed

lemma loadPrimitive_packed:
  assumes "isMorphTarget pMesh"
    and "loadPrimitive F model trs rs gs p pMesh st = Inr (m, st', r)"
  shows "\<exists>pMesh1 m1 st1. packMorph F model rs gs p pMesh1 st = Inr (m1, st1) \<and>
           morphPushConst m = morphPushConst m1 \<and> morphVertexData st' = morphVertexData st1"
proof -
  from assms(2) obtain m2 st2 where
    v: "loadVertices F model trs rs gs p (startPrimitive p pMesh st) st = Inr (m2, st2)"
    and i: "loadIndices model p (vertexStartOf pMesh st) m2 st2 = Inr (m, st', r)"
    by (rule loadPrimitive_elim)
  from v obtain a posAccessor bufferPos normals st1 where
    a: "prim_attributes p ''POSITION'' = Some a"
    and acc: "accessorData model (size_t a) = Inr (posAccessor, bufferPos)"
    and pk: "(if isMorphTarget (startPrimitive p pMesh st) then packMorph F model rs gs p (startPrimitive p pMesh st) st else Inr ((startPrimitive p pMesh st), st))
       = Inr (m2, st1)"
    and st2: "st2 = pushVertices (isMorphTarget (startPrimitive p pMesh st))
             (map (makeVertex F trs gs bufferPos normals) [0..<acc_count posAccessor]) st1"
    by (rule loadVertices_elim)
  from pk assms(1) have pk': "packMorph F model rs gs p (startPrimitive p pMesh st) st = Inr (m2, st1)" by simp
  from loadIndices_mesh [OF i] have pc: "morphPushConst m = morphPushConst m2" by auto
  have "morphVertexData st' = morphVertexData st2"
    using loadIndices_state [OF i] by (cases r) (simp_all add: pushIndices_def)
  then have "morphVertexData st' = morphVertexData st1"
    by (simp add: st2 pushVertices_def)
  with pk' pc show ?thesis by blast
qed

subsection \<open>The mesh of a node, and the recursion over the children\<close>

lemma loadNodeMesh_elim:
  assumes "loadNodeMesh F model node nodeIndex trs gs st = Inr st'"
    and "0 \<le> node_mesh node"
    and "elem_at (model_meshes model) (size_t (node_mesh node)) = Inr mesh"
  obtains pMesh st1 m st2 r where
    "classifyMesh F model mesh nodeIndex st = Inr (pMesh, st1)"
    "loadPrimitives F model trs (localNodeRSMatrix F node) gs (mesh_primitives mesh) pMesh st1
       = Inr (m, st2, r)"
    "st' = pushMesh m st2"
proof -
  from assms(1,2,3) obtain pMesh st1 where
    c: "classifyMesh F model mesh nodeIndex st = Inr (pMesh, st1)"
    by (cases "classifyMesh F model mesh nodeIndex st") (auto simp: loadNodeMesh_def)
  from assms(1,2,3) c obtain m st2 r where
    l: "loadPrimitives F model trs (localNodeRSMatrix F node) gs (mesh_primitives mesh) pMesh st1
       = Inr (m, st2, r)"
    by (cases "loadPrimitives F model trs (localNodeRSMatrix F node) gs (mesh_primitives mesh) pMesh st1")
      (auto simp: loadNodeMesh_def)
  from assms(1,2,3) c l have "st' = pushMesh m st2"
    by (simp add: loadNodeMesh_def)
  with c l that show thesis by blast
qed

lemma loadNodeMesh_pushed:
  assumes "loadNodeMesh F model node nodeIndex trs gs st = Inr st'"
    and "0 \<le> node_mesh node"
    and "elem_at (model_meshes model) (size_t (node_mesh node)) = Inr mesh"
  obtains m where
    "isMorphTarget m = (mesh_weights mesh \<noteq> [])"
    "meshesMorph st' = (if isMorphTarget m then meshesMorph st @ [m] else meshesMorph st)"
    "meshesNormal st' = (if isMorphTarget m then meshesNormal st else meshesNormal st @ [m])"
    "weights (morphPushConst m) = replicate MAX_WEIGHTS 0"
    "mesh_weights mesh = [] \<longrightarrow>
        bufferOffset (morphPushConst m) = 0 \<and> normalOffset (morphPushConst m) = 0 \<and>
        tangentOffset (morphPushConst m) = 0 \<and> vertexStride (morphPushConst m) = 0"
    "mesh_weights mesh \<noteq> [] \<longrightarrow>
        weightsInit m = map (f32_of_double F) (take MAX_WEIGHTS (mesh_weights mesh)) \<and>
        (firstWeightsChannel (model_animations model) nodeIndex = None \<longrightarrow>
           weightsTime m = [] \<and> weightsData m = [])"
proof -
  from assms obtain pMesh st1 m st2 r where
    c: "classifyMesh F model mesh nodeIndex st = Inr (pMesh, st1)"
    and l: "loadPrimitives F model trs (localNodeRSMatrix F node) gs (mesh_primitives mesh) pMesh st1
       = Inr (m, st2, r)"
    and st': "st' = pushMesh m st2"
    by (rule loadNodeMesh_elim)
  note cm = classifyMesh_mesh [OF c]
  note lm = loadPrimitives_mesh [OF l]
  note lf = loadPrimitives_frame [OF l]
  from cm have cm1: "isMorphTarget pMesh = (mesh_weights mesh \<noteq> [])"
    and cm2: "meshesMorph st1 = meshesMorph st" and cm3: "meshesNormal st1 = meshesNormal st"
    and cm4: "weights (morphPushConst pMesh) = replicate MAX_WEIGHTS 0"
    and cm5: "mesh_weights mesh = [] \<longrightarrow>
            bufferOffset (morphPushConst pMesh) = 0 \<and> normalOffset (morphPushConst pMesh) = 0 \<and>
            tangentOffset (morphPushConst pMesh) = 0 \<and> vertexStride (morphPushConst pMesh) = 0"
    and cm6: "mesh_weights mesh \<noteq> [] \<longrightarrow>
            weightsInit pMesh = map (f32_of_double F) (take MAX_WEIGHTS (mesh_weights mesh)) \<and>
            (firstWeightsChannel (model_animations model) nodeIndex = None \<longrightarrow>
               weightsTime pMesh = [] \<and> weightsData pMesh = [])"
    by blast+
  from lm have lm1: "isMorphTarget m = isMorphTarget pMesh"
    and lm2: "weightsInit m = weightsInit pMesh" and lm3: "weightsTime m = weightsTime pMesh"
    and lm4: "weightsData m = weightsData pMesh"
    and lm5: "weights (morphPushConst m) = weights (morphPushConst pMesh)"
    and lm6: "\<not> isMorphTarget pMesh \<longrightarrow> morphPushConst m = morphPushConst pMesh"
    by blast+
  from lf have lf1: "meshesMorph st2 = meshesMorph st1" and lf2: "meshesNormal st2 = meshesNormal st1"
    by blast+
  have 1: "isMorphTarget m = (mesh_weights mesh \<noteq> [])"
    by (simp only: lm1 cm1)
  have 2: "meshesMorph st' = (if isMorphTarget m then meshesMorph st @ [m] else meshesMorph st)"
    by (simp add: st' pushMesh_def lf1 cm2)
  have 3: "meshesNormal st' = (if isMorphTarget m then meshesNormal st else meshesNormal st @ [m])"
    by (simp add: st' pushMesh_def lf2 cm3)
  have 4: "weights (morphPushConst m) = replicate MAX_WEIGHTS 0"
    by (simp only: lm5 cm4)
  have 5: "mesh_weights mesh = [] \<longrightarrow>
        bufferOffset (morphPushConst m) = 0 \<and> normalOffset (morphPushConst m) = 0 \<and>
        tangentOffset (morphPushConst m) = 0 \<and> vertexStride (morphPushConst m) = 0"
    using cm5 lm6 cm1 by auto
  have 6: "mesh_weights mesh \<noteq> [] \<longrightarrow>
        weightsInit m = map (f32_of_double F) (take MAX_WEIGHTS (mesh_weights mesh)) \<and>
        (firstWeightsChannel (model_animations model) nodeIndex = None \<longrightarrow>
           weightsTime m = [] \<and> weightsData m = [])"
    using cm6 by (simp only: lm2 lm3 lm4)
  from 1 2 3 4 5 6 show thesis by (rule that)
qed

lemma loadNodeMesh_kinds:
  assumes "loadNodeMesh F model node nodeIndex trs gs st = Inr st'"
    and "\<forall>m \<in> set (meshesNormal st). zeroedStatic m"
    and "\<forall>m \<in> set (meshesMorph st). isMorphTarget m"
  shows "(\<forall>m \<in> set (meshesNormal st'). zeroedStatic m) \<and>
         (\<forall>m \<in> set (meshesMorph st'). isMorphTarget m)"
proof (cases "node_mesh node < 0")
  case True
  with assms(1) have "st' = st" by (simp add: loadNodeMesh_def)
  with assms(2,3) show ?thesis by simp
next
  case False
  then have nn: "0 \<le> node_mesh node" by simp
  from assms(1) False obtain mesh where
    e: "elem_at (model_meshes model) (size_t (node_mesh node)) = Inr mesh"
    by (cases "elem_at (model_meshes model) (size_t (node_mesh node))")
      (auto simp: loadNodeMesh_def)
  from assms(1) nn e obtain m where
    1: "isMorphTarget m = (mesh_weights mesh \<noteq> [])"
    and 2: "meshesMorph st' = (if isMorphTarget m then meshesMorph st @ [m] else meshesMorph st)"
    and 3: "meshesNormal st' = (if isMorphTarget m then meshesNormal st else meshesNormal st @ [m])"
    and 4: "weights (morphPushConst m) = replicate MAX_WEIGHTS 0"
    and 5: "mesh_weights mesh = [] \<longrightarrow>
        bufferOffset (morphPushConst m) = 0 \<and> normalOffset (morphPushConst m) = 0 \<and>
        tangentOffset (morphPushConst m) = 0 \<and> vertexStride (morphPushConst m) = 0"
    and 6: "mesh_weights mesh \<noteq> [] \<longrightarrow>
        weightsInit m = map (f32_of_double F) (take MAX_WEIGHTS (mesh_weights mesh)) \<and>
        (firstWeightsChannel (model_animations model) nodeIndex = None \<longrightarrow>
           weightsTime m = [] \<and> weightsData m = [])"
    by (rule loadNodeMesh_pushed)
  show ?thesis
  proof (cases "isMorphTarget m")
    case True
    with 2 3 assms(2,3) show ?thesis by simp
  next
    case False
    with 1 5 have "zeroedStatic m" by (simp add: zeroedStatic_def)
    with False 2 3 assms(2,3) show ?thesis by simp
  qed
qed

lemma loadNode_kinds:
  "(loadNode fuel F model node nodeIndex parentMatrix gs st = Some (Inr st') \<longrightarrow>
      (\<forall>m \<in> set (meshesNormal st). zeroedStatic m) \<longrightarrow>
      (\<forall>m \<in> set (meshesMorph st). isMorphTarget m) \<longrightarrow>
      (\<forall>m \<in> set (meshesNormal st'). zeroedStatic m) \<and>
      (\<forall>m \<in> set (meshesMorph st'). isMorphTarget m)) \<and>
   (loadChildren fuel F model cs trs gs st = Some (Inr st') \<longrightarrow>
      (\<forall>m \<in> set (meshesNormal st). zeroedStatic m) \<longrightarrow>
      (\<forall>m \<in> set (meshesMorph st). isMorphTarget m) \<longrightarrow>
      (\<forall>m \<in> set (meshesNormal st'). zeroedStatic m) \<and>
      (\<forall>m \<in> set (meshesMorph st'). isMorphTarget m))"
proof (induction fuel arbitrary: node nodeIndex parentMatrix st st' cs trs)
  case 0
  have "loadChildren 0 F model cs trs gs st = Some (Inr st') \<longrightarrow> st' = st"
    by (cases cs) (auto split: sum.splits)
  then show ?case by auto
next
  case (Suc fuel)
  have node: "(\<forall>m \<in> set (meshesNormal st'). zeroedStatic m) \<and>
      (\<forall>m \<in> set (meshesMorph st'). isMorphTarget m)"
    if l: "loadNode (Suc fuel) F model node nodeIndex parentMatrix gs st = Some (Inr st')"
      and i1: "\<forall>m \<in> set (meshesNormal st). zeroedStatic m"
      and i2: "\<forall>m \<in> set (meshesMorph st). isMorphTarget m"
    for node nodeIndex parentMatrix st st'
  proof -
    from l obtain st1 where
      c: "loadChildren fuel F model (node_children node)
            (mat4_mul parentMatrix (localNodeTRSMatrix F node)) gs st = Some (Inr st1)"
      and n: "loadNodeMesh F model node nodeIndex
                (mat4_mul parentMatrix (localNodeTRSMatrix F node)) gs st1 = Inr st'"
      by (auto split: option.splits sum.splits)
    from Suc.IH c i1 i2 have "(\<forall>m \<in> set (meshesNormal st1). zeroedStatic m) \<and>
      (\<forall>m \<in> set (meshesMorph st1). isMorphTarget m)"
      by blast
    with loadNodeMesh_kinds [OF n] show ?thesis by blast
  qed
  have children: "(\<forall>m \<in> set (meshesNormal st'). zeroedStatic m) \<and>
      (\<forall>m \<in> set (meshesMorph st'). isMorphTarget m)"
    if l: "loadChildren (Suc fuel) F model cs trs gs st = Some (Inr st')"
      and i1: "\<forall>m \<in> set (meshesNormal st). zeroedStatic m"
      and i2: "\<forall>m \<in> set (meshesMorph st). isMorphTarget m"
    for cs trs st st'
    using l i1 i2
  proof (induction cs arbitrary: st)
    case Nil
    then show ?case by simp
  next
    case (Cons c cs)
    from Cons.prems(1) obtain child st1 where
      e: "elem_at (model_nodes model) (size_t c) = Inr child"
      and n: "loadNode (Suc fuel) F model child (size_t c) trs gs st = Some (Inr st1)"
      and r: "loadChildren (Suc fuel) F model cs trs gs st1 = Some (Inr st')"
      by (auto split: option.splits sum.splits)
    from node [OF n Cons.prems(2) Cons.prems(3)]
    have "\<forall>m \<in> set (meshesNormal st1). zeroedStatic m"
      and "\<forall>m \<in> set (meshesMorph st1). isMorphTarget m"
      by blast+
    from Cons.IH [OF r this] show ?case .
  qed
  from node children show ?case by blast
qed

subsection \<open>The range of the indices of a static mesh\<close>

lemma unat_add_of_nat:
  "unat b + n < 2 ^ 32 \<Longrightarrow> unat (b + of_nat n :: 32 word) = unat b + n"
  by (simp add: unat_word_ariths unat_of_nat)

lemma loadPrimitive_static_range:
  assumes l: "loadPrimitive F model trs rs gs p pMesh st = Inr (m, st', r)"
    and s: "\<not> isMorphTarget pMesh"
    and raw: "\<forall>b \<in> set (rawIndices model p). unat b < positionCount model p"
    and bound: "length (vertexBufferNormal st') < 2 ^ 32"
  shows "length (vertexBufferNormal st') = length (vertexBufferNormal st) + positionCount model p \<and>
         (\<exists>new. indexBufferNormal st' = indexBufferNormal st @ new \<and>
            (\<forall>i \<in> set new. length (vertexBufferNormal st) \<le> unat i \<and>
                             unat i < length (vertexBufferNormal st')))"
proof -
  from loadPrimitive_vbuf [OF l] s obtain vs where
    vs: "length vs = positionCount model p"
    and vb: "vertexBufferNormal st' = vertexBufferNormal st @ vs"
    by auto
  have len: "length (vertexBufferNormal st') = length (vertexBufferNormal st) + positionCount model p"
    by (simp add: vb vs)
  show ?thesis
  proof (cases r)
    case True
    with loadPrimitive_ibuf [OF l] have "indexBufferNormal st' = indexBufferNormal st @ []"
      by simp
    with len show ?thesis by (intro conjI exI [of _ "[]"]) simp_all
  next
    case False
    with loadPrimitive_ibuf [OF l] s have ib: "indexBufferNormal st' =
        indexBufferNormal st @
        map (\<lambda>b. b + of_nat (length (vertexBufferNormal st))) (rawIndices model p)"
      by (simp add: vertexStartOf_def)
    have "length (vertexBufferNormal st) \<le> unat (b + of_nat (length (vertexBufferNormal st)) :: 32 word) \<and>
          unat (b + of_nat (length (vertexBufferNormal st)) :: 32 word) < length (vertexBufferNormal st')"
      if b: "b \<in> set (rawIndices model p)" for b
    proof -
      from raw b have lt: "unat b < positionCount model p" by blast
      with len bound have "unat b + length (vertexBufferNormal st) < 2 ^ 32" by simp
      from unat_add_of_nat [OF this] lt len show ?thesis by simp
    qed
    then have "\<forall>i \<in> set (map (\<lambda>b. b + of_nat (length (vertexBufferNormal st))) (rawIndices model p)).
        length (vertexBufferNormal st) \<le> unat i \<and> unat i < length (vertexBufferNormal st')"
      by auto
    with ib len show ?thesis by blast
  qed
qed

lemma loadPrimitives_vbuf_mono:
  "loadPrimitives F model trs rs gs ps pMesh st = Inr (m, st', r) \<Longrightarrow>
   length (vertexBufferNormal st) \<le> length (vertexBufferNormal st') \<and>
   length (vertexBufferMorph st) \<le> length (vertexBufferMorph st')"
proof (induction ps arbitrary: pMesh st)
  case Nil
  then show ?case by simp
next
  case (Cons p ps)
  show ?case
  proof (cases "prim_indices p < 0")
    case True
    with Cons.prems have "loadPrimitives F model trs rs gs ps pMesh st = Inr (m, st', r)"
      by simp
    from Cons.IH [OF this] show ?thesis .
  next
    case False
    with Cons.prems obtain m1 st1 r1 where
      one: "loadPrimitive F model trs rs gs p pMesh st = Inr (m1, st1, r1)"
      and rest: "if r1 then (m, st', r) = (m1, st1, True)
                 else loadPrimitives F model trs rs gs ps m1 st1 = Inr (m, st', r)"
      by (auto split: sum.splits prod.splits if_splits)
    have h: "length (vertexBufferNormal st) \<le> length (vertexBufferNormal st1) \<and>
             length (vertexBufferMorph st) \<le> length (vertexBufferMorph st1)"
      using loadPrimitive_vbuf [OF one] loadPrimitive_frame [OF one]
      by (cases "isMorphTarget pMesh") auto
    show ?thesis
    proof (cases r1)
      case True
      with rest h show ?thesis by simp
    next
      case False
      with rest have "loadPrimitives F model trs rs gs ps m1 st1 = Inr (m, st', r)" by simp
      from Cons.IH [OF this] h show ?thesis by simp
    qed
  qed
qed

lemma loadPrimitives_static_range:
  "loadPrimitives F model trs rs gs ps pMesh st = Inr (m, st', r) \<Longrightarrow>
   \<not> isMorphTarget pMesh \<Longrightarrow>
   \<forall>p \<in> set ps. 0 \<le> prim_indices p \<longrightarrow>
      (\<forall>b \<in> set (rawIndices model p). unat b < positionCount model p) \<Longrightarrow>
   length (vertexBufferNormal st') < 2 ^ 32 \<Longrightarrow>
   \<exists>new. indexBufferNormal st' = indexBufferNormal st @ new \<and>
     (\<forall>i \<in> set new. length (vertexBufferNormal st) \<le> unat i \<and>
                      unat i < length (vertexBufferNormal st'))"
proof (induction ps arbitrary: pMesh st)
  case Nil
  then show ?case by simp
next
  case (Cons p ps)
  show ?case
  proof (cases "prim_indices p < 0")
    case True
    with Cons.prems(1) have "loadPrimitives F model trs rs gs ps pMesh st = Inr (m, st', r)"
      by simp
    from Cons.IH [OF this Cons.prems(2) _ Cons.prems(4)] Cons.prems(3) show ?thesis by simp
  next
    case False
    with Cons.prems(1) obtain m1 st1 r1 where
      one: "loadPrimitive F model trs rs gs p pMesh st = Inr (m1, st1, r1)"
      and rest: "if r1 then (m, st', r) = (m1, st1, True)
                 else loadPrimitives F model trs rs gs ps m1 st1 = Inr (m, st', r)"
      by (auto split: sum.splits prod.splits if_splits)
    from False Cons.prems(3) have raw: "\<forall>b \<in> set (rawIndices model p). unat b < positionCount model p"
      by simp
    have im: "\<not> isMorphTarget m1"
      using loadPrimitive_mesh [OF one] Cons.prems(2) by simp
    show ?thesis
    proof (cases r1)
      case True
      with rest have eq: "st' = st1" by simp
      from Cons.prems(4) have "length (vertexBufferNormal st1) < 2 ^ 32" by (simp add: eq)
      from loadPrimitive_static_range [OF one Cons.prems(2) raw this]
      show ?thesis unfolding eq by blast
    next
      case False
      with rest have tl: "loadPrimitives F model trs rs gs ps m1 st1 = Inr (m, st', r)" by simp
      from loadPrimitives_vbuf_mono [OF tl]
      have mono: "length (vertexBufferNormal st1) \<le> length (vertexBufferNormal st')" by simp
      with Cons.prems(4) have b1: "length (vertexBufferNormal st1) < 2 ^ 32" by simp
      from loadPrimitive_static_range [OF one Cons.prems(2) raw b1] obtain new1 where
        len1: "length (vertexBufferNormal st1) = length (vertexBufferNormal st) + positionCount model p"
        and ib1: "indexBufferNormal st1 = indexBufferNormal st @ new1"
        and r1: "\<forall>i \<in> set new1. length (vertexBufferNormal st) \<le> unat i \<and>
                             unat i < length (vertexBufferNormal st1)"
        by blast
      from Cons.IH [OF tl im _ Cons.prems(4)] Cons.prems(3) obtain new2 where
        ib2: "indexBufferNormal st' = indexBufferNormal st1 @ new2"
        and r2: "\<forall>i \<in> set new2. length (vertexBufferNormal st1) \<le> unat i \<and>
                             unat i < length (vertexBufferNormal st')"
        by auto
      have "indexBufferNormal st' = indexBufferNormal st @ (new1 @ new2)"
        by (simp add: ib1 ib2)
      moreover have "\<forall>i \<in> set (new1 @ new2). length (vertexBufferNormal st) \<le> unat i \<and>
                             unat i < length (vertexBufferNormal st')"
        using r1 r2 mono len1 by fastforce
      ultimately show ?thesis by blast
    qed
  qed
qed

subsection \<open>The default case of the switch; the identity transform\<close>

lemma loadIndices_unsupported:
  assumes "accessorData model (size_t (prim_indices p)) = Inr (accessor, ptr)"
    and "acc_componentType accessor \<noteq> TINYGLTF_PARAMETER_TYPE_UNSIGNED_INT"
    and "acc_componentType accessor \<noteq> TINYGLTF_PARAMETER_TYPE_UNSIGNED_SHORT"
    and "acc_componentType accessor \<noteq> TINYGLTF_PARAMETER_TYPE_UNSIGNED_BYTE"
  shows "loadIndices model p vs pMesh st =
     Inr (pMesh\<lparr>primitives :=
                  update_back (\<lambda>pPrimitive. pPrimitive\<lparr>indexCount := of_nat (acc_count accessor)\<rparr>)
                    (primitives pMesh)\<rparr>,
          st\<lparr>cerr := cerr st @ [IndexComponentTypeNotSupported (acc_componentType accessor)]\<rparr>,
          True)"
  using assms by (simp add: loadIndices_def)

lemma localNodeRSMatrix_identity:
  "length (node_matrix node) \<noteq> 16 \<Longrightarrow> length (node_rotation node) \<noteq> 4 \<Longrightarrow>
   length (node_scale node) \<noteq> 3 \<Longrightarrow> localNodeRSMatrix F node = mat4_diag 1"
  by (simp add: localNodeRSMatrix_def rotation_def scale_def
      mat4_mul_def mat4_mul_vec4_def glm_scale_def mat4_diag_def col0_def col1_def col2_def
      col3_def vec4_add_def vec4_mul_def)

lemma packSlot_identity_position:
  "packSlot F (mat4_diag 1) 1 1 [ptr] i 0 =
     (case make_vec3_at F ptr i of (x, y, z) \<Rightarrow> [x, - y, z])"
  by (simp add: packSlot_def mat4_mul_vec4_def mat4_diag_def vec4_of_vec3_def vec3_of_vec4_def
      vec4_add_def vec4_mul_def vec3_mul_def flipY_def col0_def col1_def col2_def col3_def
      Let_def split: prod.splits)

section \<open>The example scene, evaluated\<close>

lemma ex_acc0:
  "accessorData exampleModel 0 =
   Inr (\<lparr>acc_bufferView = 0, acc_byteOffset = 0, acc_componentType = 5126, acc_count = 1\<rparr>,
        ([1, 0, 0, 0, 2, 0, 0, 0, 3, 0, 0, 0, 0], 0))"
  by (simp add: accessorData_def exampleModel_def elem_at_def size_t_def)

lemma ex_acc1: "accessorData exampleModel (Suc 0) =
   Inr (\<lparr>acc_bufferView = 1, acc_byteOffset = 0, acc_componentType = 5121, acc_count = 1\<rparr>,
        ([1, 0, 0, 0, 2, 0, 0, 0, 3, 0, 0, 0, 0], 12))"
  by (simp add: accessorData_def exampleModel_def elem_at_def size_t_def)

lemma ex_packMorph:
  "packMorph exampleFloatOps exampleModel (mat4_diag 1) 1 examplePrimitive pMesh st =
     Inr (pMesh\<lparr>morphPushConst := (morphPushConst pMesh)
                 \<lparr>normalOffset := 2, tangentOffset := 2, vertexStride := 2,
                  bufferOffset := of_nat (length (morphVertexData st))\<rparr>\<rparr>,
          st\<lparr>morphVertexData := morphVertexData st @ [1, - 2, 3, 1, - 2, 3]\<rparr>)"
  by (simp add: packMorph_def examplePrimitive_def ex_acc0 size_t_def bytes_readable_def
      packSlot_def make_vec3_at_def floatAt_def exampleFloatOps_def
      mat4_mul_vec4_def mat4_diag_def vec4_of_vec3_def vec3_of_vec4_def vec4_add_def vec4_mul_def
      vec3_mul_def flipY_def col0_def col1_def col2_def col3_def Let_def upt_rec)

lemma ex_makeVertex:
  "makeVertex exampleFloatOps (mat4_diag 1) 1 ([1, 0, 0, 0, 2, 0, 0, 0, 3, 0, 0, 0, 0], 0) None 0
     = exampleVertex"
  by (simp add: makeVertex_def exampleVertex_def make_vec3_at_def floatAt_def exampleFloatOps_def
      mat4_mul_vec4_def mat3_mul_vec3_def mat4_diag_def vec4_of_vec3_def vec3_of_vec4_def
      vec4_add_def vec4_mul_def vec3_mul_def flipY_def col0_def col1_def col2_def col3_def)

lemma ex_attributes:
  "prim_attributes examplePrimitive ''POSITION'' = Some 0"
  "optionalAttribute exampleModel examplePrimitive ''NORMAL'' = Inr None"
  "optionalAttribute exampleModel examplePrimitive ''TEXCOORD_0'' = Inr None"
  by (simp_all add: examplePrimitive_def optionalAttribute_def)

lemma ex_loadVertices:
  "loadVertices exampleFloatOps exampleModel (mat4_diag 1) (mat4_diag 1) 1 examplePrimitive pMesh st =
     (if isMorphTarget pMesh
      then Inr (pMesh\<lparr>morphPushConst := (morphPushConst pMesh)
                 \<lparr>normalOffset := 2, tangentOffset := 2, vertexStride := 2,
                  bufferOffset := of_nat (length (morphVertexData st))\<rparr>\<rparr>,
                st\<lparr>morphVertexData := morphVertexData st @ [1, - 2, 3, 1, - 2, 3],
                   vertexBufferMorph := vertexBufferMorph st @ [exampleVertex]\<rparr>)
      else Inr (pMesh, st\<lparr>vertexBufferNormal := vertexBufferNormal st @ [exampleVertex]\<rparr>))"
  by (simp add: loadVertices_def ex_packMorph ex_attributes pushVertices_def
      ex_acc0 size_t_def bytes_readable_def ex_makeVertex upt_rec)

lemma ex_loadIndices:
  "loadIndices exampleModel examplePrimitive vs pMesh st =
     Inr (pMesh\<lparr>primitives := update_back (indexCount_update (\<lambda>_. 1)) (primitives pMesh)\<rparr>,
          pushIndices (isMorphTarget pMesh) vs [0] st, False)"
  by (simp add: loadIndices_def examplePrimitive_def ex_acc1 size_t_def bytes_readable_def
      TINYGLTF_PARAMETER_TYPE_UNSIGNED_INT_def TINYGLTF_PARAMETER_TYPE_UNSIGNED_SHORT_def
      TINYGLTF_PARAMETER_TYPE_UNSIGNED_BYTE_def u8_at_def upt_rec)

lemma ex_loadPrimitive_morph:
  "loadPrimitive exampleFloatOps exampleModel (mat4_diag 1) (mat4_diag 1) 1 examplePrimitive
     (Mesh_init\<lparr>isMorphTarget := True\<rparr>) emptyState =
   Inr (loadedMorphMesh, loadedMorphState, False)"
  by (simp add: loadPrimitive_def startPrimitive_def ex_loadVertices ex_loadIndices
      update_back_snoc pushIndices_def vertexStartOf_def loadedMorphMesh_def loadedMorphState_def)
    (simp add: Mesh_init_def emptyState_def examplePrimitive_def)

lemma ex_loadPrimitive_static:
  "loadPrimitive exampleFloatOps exampleModel (mat4_diag 1) (mat4_diag 1) 1 examplePrimitive
     Mesh_init emptyState =
   Inr (loadedStaticMesh, loadedStaticState, False)"
  by (simp add: loadPrimitive_def startPrimitive_def ex_loadVertices ex_loadIndices
      update_back_snoc pushIndices_def vertexStartOf_def loadedStaticMesh_def loadedStaticState_def)
    (simp add: Mesh_init_def emptyState_def examplePrimitive_def)

lemma ex_loadPrimitive_morph_any:
  "isMorphTarget pMesh \<Longrightarrow>
   loadPrimitive exampleFloatOps exampleModel (mat4_diag 1) (mat4_diag 1) 1 examplePrimitive pMesh st =
   Inr (pMesh\<lparr>primitives := primitives pMesh @
                  [\<lparr>firstIndex = of_nat (length (indexBufferMorph st)), indexCount = 1,
                    material = 0\<rparr>],
               morphVertexOffset := of_nat (length (vertexBufferMorph st)) * 36,
               morphPushConst := (morphPushConst pMesh)
                 \<lparr>normalOffset := 2, tangentOffset := 2, vertexStride := 2,
                  bufferOffset := of_nat (length (morphVertexData st))\<rparr>\<rparr>,
        st\<lparr>morphVertexData := morphVertexData st @ [1, - 2, 3, 1, - 2, 3],
           vertexBufferMorph := vertexBufferMorph st @ [exampleVertex],
           indexBufferMorph := indexBufferMorph st @ [0]\<rparr>,
        False)"
  by (simp add: loadPrimitive_def startPrimitive_def ex_loadVertices ex_loadIndices
      update_back_snoc pushIndices_def vertexStartOf_def sizeof_Vertex_def)
    (simp add: examplePrimitive_def)

lemma ex_loadPrimitive_static_any:
  "\<not> isMorphTarget pMesh \<Longrightarrow>
   loadPrimitive exampleFloatOps exampleModel (mat4_diag 1) (mat4_diag 1) 1 examplePrimitive pMesh st =
   Inr (pMesh\<lparr>primitives := primitives pMesh @
                  [\<lparr>firstIndex = of_nat (length (indexBufferNormal st)), indexCount = 1,
                    material = 0\<rparr>],
               morphVertexOffset := of_nat (length (vertexBufferNormal st)) * 36\<rparr>,
        st\<lparr>vertexBufferNormal := vertexBufferNormal st @ [exampleVertex],
           indexBufferNormal := indexBufferNormal st @ [0 + of_nat (length (vertexBufferNormal st))]\<rparr>,
        False)"
  by (simp add: loadPrimitive_def startPrimitive_def ex_loadVertices ex_loadIndices
      update_back_snoc pushIndices_def vertexStartOf_def sizeof_Vertex_def)
    (simp add: examplePrimitive_def)

lemma ex_localNodeRSMatrix:
  "localNodeRSMatrix exampleFloatOps staticNode = mat4_diag 1"
  "localNodeRSMatrix exampleFloatOps morphNode = mat4_diag 1"
  "localNodeRSMatrix exampleFloatOps faultyNode = mat4_diag 1"
  by (simp_all add: localNodeRSMatrix_def staticNode_def morphNode_def faultyNode_def
      rotation_def scale_def
      mat4_mul_def mat4_mul_vec4_def glm_scale_def mat4_diag_def col0_def col1_def col2_def
      col3_def vec4_add_def vec4_mul_def)

lemma ex_meshes:
  "elem_at (model_meshes exampleModel) 0 =
     Inr \<lparr>mesh_weights = [], mesh_primitives = [examplePrimitive]\<rparr>"
  "elem_at (model_meshes exampleModel) (Suc 0) =
     Inr \<lparr>mesh_weights = [1 / 2, 1 / 2], mesh_primitives = [examplePrimitive]\<rparr>"
  "elem_at (model_meshes exampleModel) 2 =
     Inr \<lparr>mesh_weights = [],
          mesh_primitives = [examplePrimitive, faultyPrimitive, examplePrimitive]\<rparr>"
  by (simp_all add: exampleModel_def elem_at_def)

lemma ex_nodes:
  "node_mesh staticNode = 0" "node_mesh morphNode = 1" "node_mesh faultyNode = 2"
  by (simp_all add: staticNode_def morphNode_def faultyNode_def)

lemma ex_indices: "prim_indices examplePrimitive = 1"
  by (simp add: examplePrimitive_def)

lemma ex_classify_morph:
  "classifyMesh exampleFloatOps exampleModel
     \<lparr>mesh_weights = [1 / 2, 1 / 2], mesh_primitives = [examplePrimitive]\<rparr> n emptyState =
   Inr (Mesh_init\<lparr>isMorphTarget := True, weightsInit := [1 / 2, 1 / 2]\<rparr>, emptyState)"
  by (simp add: classifyMesh_def loadWeights_def Let_def exampleModel_def MAX_WEIGHTS_def
      exampleFloatOps_def Mesh_init_def)

lemma ex_classify_static:
  "classifyMesh exampleFloatOps exampleModel
     \<lparr>mesh_weights = [], mesh_primitives = ps\<rparr> n emptyState =
   Inr (Mesh_init, emptyState)"
  by (simp add: classifyMesh_def Let_def zeroPushConst_def Mesh_init_def)

lemma ex_loadNodeMesh_morph:
  "loadNodeMesh exampleFloatOps exampleModel morphNode 1 (mat4_diag 1) 1 emptyState =
     Inr loadedMorphNodeState"
proof -
  have lp: "loadPrimitives exampleFloatOps exampleModel (mat4_diag 1) (mat4_diag 1) 1 [examplePrimitive]
          (Mesh_init\<lparr>isMorphTarget := True, weightsInit := [1 / 2, 1 / 2]\<rparr>) emptyState =
        Inr (loadedMorphMesh\<lparr>weightsInit := [1 / 2, 1 / 2]\<rparr>, loadedMorphState, False)"
    by (simp add: ex_indices ex_loadPrimitive_morph_any)
      (simp add: loadedMorphMesh_def loadedMorphState_def Mesh_init_def emptyState_def)
  show ?thesis
    by (simp add: loadNodeMesh_def ex_localNodeRSMatrix ex_nodes size_t_def ex_meshes
        ex_classify_morph lp pushMesh_def del: loadPrimitives.simps)
      (simp add: loadedMorphNodeState_def loadedMorphMesh_def loadedMorphState_def
        emptyState_def Mesh_init_def)
qed

lemma ex_loadNodeMesh_static:
  "loadNodeMesh exampleFloatOps exampleModel staticNode 0 (mat4_diag 1) 1 emptyState =
     Inr loadedStaticNodeState"
proof -
  have lp: "loadPrimitives exampleFloatOps exampleModel (mat4_diag 1) (mat4_diag 1) 1 [examplePrimitive]
          Mesh_init emptyState =
        Inr (loadedStaticMesh, loadedStaticState, False)"
    by (simp add: ex_indices ex_loadPrimitive_static_any Mesh_init_def)
      (simp add: loadedStaticMesh_def loadedStaticState_def Mesh_init_def emptyState_def)
  show ?thesis
    by (simp add: loadNodeMesh_def ex_localNodeRSMatrix ex_nodes size_t_def ex_meshes
        ex_classify_static lp pushMesh_def del: loadPrimitives.simps)
      (simp add: loadedStaticNodeState_def loadedStaticMesh_def loadedStaticState_def
        emptyState_def Mesh_init_def)
qed

lemma ex_localNodeTRSMatrix:
  "mat4_mul (mat4_diag 1) (localNodeTRSMatrix exampleFloatOps staticNode) = mat4_diag 1"
  "mat4_mul (mat4_diag 1) (localNodeTRSMatrix exampleFloatOps rootNode) = mat4_diag 1"
  by (simp_all add: localNodeTRSMatrix_def staticNode_def rootNode_def rotation_def scale_def
      translation_def glm_translate_def
      mat4_mul_def mat4_mul_vec4_def glm_scale_def mat4_diag_def col0_def col1_def col2_def
      col3_def vec4_add_def vec4_mul_def)

lemma ex_model_nodes:
  "elem_at (model_nodes exampleModel) (size_t 0) = Inr staticNode"
  by (simp add: exampleModel_def elem_at_def size_t_def staticNode_def)

lemma ex_loadNode_static:
  "loadNode (Suc 0) exampleFloatOps exampleModel staticNode 0 (mat4_diag 1) 1 emptyState =
     Some (Inr loadedStaticNodeState)"
proof -
  have c: "node_children staticNode = []" by (simp add: staticNode_def)
  show ?thesis
    by (simp add: c ex_localNodeTRSMatrix ex_loadNodeMesh_static)
qed

lemma ex_loadNode_root:
  "loadNode (Suc (Suc 0)) exampleFloatOps exampleModel rootNode 2 (mat4_diag 1) 1 emptyState =
     Some (Inr loadedStaticNodeState)"
proof -
  have c: "node_children rootNode = [0]" and m: "node_mesh rootNode = - 1"
    by (simp_all add: rootNode_def)
  have z: "size_t 0 = 0" by (simp add: size_t_def)
  have own: "loadNodeMesh exampleFloatOps exampleModel rootNode 2 (mat4_diag 1) 1
               loadedStaticNodeState = Inr loadedStaticNodeState"
    by (simp add: loadNodeMesh_def m)
  have kid: "loadChildren (Suc 0) exampleFloatOps exampleModel [0] (mat4_diag 1) 1 emptyState =
               Some (Inr loadedStaticNodeState)"
    using ex_loadNode_static ex_model_nodes
    by (simp add: z del: loadNode.simps)
  show ?thesis
    by (simp add: c ex_localNodeTRSMatrix kid own del: loadChildren.simps)
qed

lemma ex_second_static:
  "loadPrimitive exampleFloatOps exampleModel (mat4_diag 1) (mat4_diag 1) 1 examplePrimitive
     loadedStaticMesh loadedStaticState = Inr (twoStaticMesh, twoStaticState, False)"
proof -
  have s: "\<not> isMorphTarget loadedStaticMesh"
    by (simp add: loadedStaticMesh_def Mesh_init_def)
  show ?thesis
    by (simp add: ex_loadPrimitive_static_any [OF s])
      (simp add: twoStaticMesh_def twoStaticState_def loadedStaticMesh_def loadedStaticState_def
        emptyState_def Mesh_init_def)
qed

lemma ex_second_morph:
  "loadPrimitive exampleFloatOps exampleModel (mat4_diag 1) (mat4_diag 1) 1 examplePrimitive
     loadedMorphMesh loadedMorphState = Inr (twoMorphMesh, twoMorphState, False)"
proof -
  have s: "isMorphTarget loadedMorphMesh"
    by (simp add: loadedMorphMesh_def Mesh_init_def)
  show ?thesis
    by (simp add: ex_loadPrimitive_morph_any [OF s])
      (simp add: twoMorphMesh_def twoMorphState_def loadedMorphMesh_def loadedMorphState_def
        emptyState_def Mesh_init_def)
qed

lemma ex_rawIndices: "rawIndices exampleModel examplePrimitive = [0]"
  by (simp add: rawIndices_def examplePrimitive_def size_t_def ex_acc1
      TINYGLTF_PARAMETER_TYPE_UNSIGNED_INT_def TINYGLTF_PARAMETER_TYPE_UNSIGNED_SHORT_def
      TINYGLTF_PARAMETER_TYPE_UNSIGNED_BYTE_def u8_at_def upt_rec)

lemma ex_positionCount: "positionCount exampleModel examplePrimitive = 1"
  by (simp add: positionCount_def ex_attributes size_t_def ex_acc0)

lemma ex_two_static:
  "loadPrimitives exampleFloatOps exampleModel (mat4_diag 1) (mat4_diag 1) 1
     [examplePrimitive] loadedStaticMesh loadedStaticState =
   Inr (twoStaticMesh, twoStaticState, False)"
  by (simp add: ex_indices ex_second_static)



lemma ex_acc2:
  "accessorData exampleModel (size_t (prim_indices faultyPrimitive)) =
   Inr (\<lparr>acc_bufferView = 1, acc_byteOffset = 0, acc_componentType = 5122, acc_count = 1\<rparr>,
        ([1, 0, 0, 0, 2, 0, 0, 0, 3, 0, 0, 0, 0], 12))"
  by (simp add: accessorData_def exampleModel_def elem_at_def size_t_def faultyPrimitive_def)

lemma ex_one_static:
  "loadPrimitives exampleFloatOps exampleModel (mat4_diag 1) (mat4_diag 1) 1
     [examplePrimitive] Mesh_init emptyState =
   Inr (loadedStaticMesh, loadedStaticState, False)"
  by (simp add: ex_indices ex_loadPrimitive_static)

lemma ex_loadVertices_faulty:
  "\<not> isMorphTarget pMesh \<Longrightarrow>
   loadVertices exampleFloatOps exampleModel (mat4_diag 1) (mat4_diag 1) 1 faultyPrimitive pMesh st =
     Inr (pMesh, st\<lparr>vertexBufferNormal := vertexBufferNormal st @ [exampleVertex]\<rparr>)"
proof -
  have a: "prim_attributes faultyPrimitive ''POSITION'' = Some 0"
    "optionalAttribute exampleModel faultyPrimitive ''NORMAL'' = Inr None"
    "optionalAttribute exampleModel faultyPrimitive ''TEXCOORD_0'' = Inr None"
    by (simp_all add: faultyPrimitive_def optionalAttribute_def)
  assume "\<not> isMorphTarget pMesh"
  then show ?thesis
    by (simp add: loadVertices_def a pushVertices_def ex_acc0 size_t_def bytes_readable_def
        ex_makeVertex upt_rec)
qed

section \<open>The claims\<close>

subsection \<open>C1: the rotation-and-scale matrix of a node\<close>

text \<open>
  Claim C1: for every node visited during flattening, the rotation-and-scale-only local
  matrix used to transform the node's morph target deltas contains no translation (its
  fourth column is \<open>(0, 0, 0, 1)\<close>), also when the node supplies an explicit 4x4 matrix.

  The code keeps this for a node given by translation, rotation and scale
  (\<open>localNodeRSMatrix_no_translation\<close> above), and line 441 says of the matrix "need only
  rotate/scale for morph changes". For a node with an explicit matrix, line 444 copies
  the whole matrix: on \<open>translatedNode\<close> the fourth column of the matrix is \<open>(5, 0, 0, 1)\<close>,
  and the packer, which applies the matrix to \<open>vec4(delta, 1)\<close>, turns the delta
  \<open>(1, 2, 3)\<close> into \<open>(6, -2, 3)\<close> where a matrix without translation gives \<open>(1, -2, 3)\<close>.
\<close>

theorem explicit_matrix_keeps_translation:
  "col3 (localNodeRSMatrix exampleFloatOps translatedNode) = (5, 0, 0, 1) \<and>
   packSlot exampleFloatOps (localNodeRSMatrix exampleFloatOps translatedNode) 1 1
     [([1, 0, 0, 0, 2, 0, 0, 0, 3, 0, 0, 0, 0], 0)] 0 0 = [6, - 2, 3] \<and>
   packSlot exampleFloatOps (mat4_diag 1) 1 1
     [([1, 0, 0, 0, 2, 0, 0, 0, 3, 0, 0, 0, 0], 0)] 0 0 = [1, - 2, 3]"
  by (simp add: localNodeRSMatrix_def translatedNode_def make_mat4x4_def exampleFloatOps_def
      col0_def col1_def col2_def col3_def packSlot_def make_vec3_at_def floatAt_def
      mat4_mul_vec4_def mat4_diag_def vec4_of_vec3_def vec3_of_vec4_def vec4_add_def
      vec4_mul_def vec3_mul_def flipY_def Let_def)

theorem explicit_matrix_keeps_translation_witness:
  "col3 (localNodeRSMatrix exampleFloatOps translatedNode) \<noteq> (0, 0, 0, 1)"
  using explicit_matrix_keeps_translation by simp

subsection \<open>C2: the offsets and the stride of a packed primitive\<close>

text \<open>
  Claim C2: for every packed morph primitive, after packing, \<open>normalOffset\<close> is the number
  of the primitive's morph targets that declare a \<open>POSITION\<close> stream, \<open>tangentOffset\<close> is
  \<open>normalOffset\<close> plus the number of targets with a \<open>NORMAL\<close> stream, and \<open>vertexStride\<close>
  is \<open>tangentOffset\<close> plus the number of targets with a \<open>TANGENT\<close> stream.

  The three fields are \<open>uint32_t\<close>. The equations hold in 32-bit arithmetic for every
  primitive, and as equations between numbers as soon as three times the number of
  targets fits into 32 bits.
\<close>

theorem morph_offsets_count_streams:
  assumes "isMorphTarget pMesh"
    and "loadPrimitive F model trs rs gs p pMesh st = Inr (m, st', r)"
  shows "normalOffset (morphPushConst m) = of_nat (streamCount ''POSITION'' p) \<and>
         tangentOffset (morphPushConst m) =
           normalOffset (morphPushConst m) + of_nat (streamCount ''NORMAL'' p) \<and>
         vertexStride (morphPushConst m) =
           tangentOffset (morphPushConst m) + of_nat (streamCount ''TANGENT'' p) \<and>
         (3 * length (prim_targets p) < 2 ^ 32 \<longrightarrow>
            unat (normalOffset (morphPushConst m)) = streamCount ''POSITION'' p \<and>
            unat (tangentOffset (morphPushConst m)) =
              unat (normalOffset (morphPushConst m)) + streamCount ''NORMAL'' p \<and>
            unat (vertexStride (morphPushConst m)) =
              unat (tangentOffset (morphPushConst m)) + streamCount ''TANGENT'' p)"
proof -
  from loadPrimitive_packed [OF assms] obtain pMesh1 m1 st1 where
    pk: "packMorph F model rs gs p pMesh1 st = Inr (m1, st1)"
    and pc: "morphPushConst m = morphPushConst m1"
    by blast
  note o = packMorph_offsets [OF pk]
  have le: "streamCount name p \<le> length (prim_targets p)" for name
    by (simp add: streamCount_def)
  have words: "normalOffset (morphPushConst m) = of_nat (streamCount ''POSITION'' p)"
    "tangentOffset (morphPushConst m) =
           normalOffset (morphPushConst m) + of_nat (streamCount ''NORMAL'' p)"
    "vertexStride (morphPushConst m) =
           tangentOffset (morphPushConst m) + of_nat (streamCount ''TANGENT'' p)"
    using o by (simp_all add: pc)
  have nats: "unat (normalOffset (morphPushConst m)) = streamCount ''POSITION'' p \<and>
            unat (tangentOffset (morphPushConst m)) =
              unat (normalOffset (morphPushConst m)) + streamCount ''NORMAL'' p \<and>
            unat (vertexStride (morphPushConst m)) =
              unat (tangentOffset (morphPushConst m)) + streamCount ''TANGENT'' p"
    if b: "3 * length (prim_targets p) < 2 ^ 32"
  proof -
    have s: "streamCount ''POSITION'' p + streamCount ''NORMAL'' p + streamCount ''TANGENT'' p
             < 2 ^ 32"
      using le [of "''POSITION''"] le [of "''NORMAL''"] le [of "''TANGENT''"] b by linarith
    have u: "unat (of_nat k :: 32 word) = k" if "k < 2 ^ 32" for k :: nat
      using that by (simp add: unat_of_nat)
    from o have o1: "normalOffset (morphPushConst m1) = of_nat (streamCount ''POSITION'' p)"
      and o2: "tangentOffset (morphPushConst m1) =
           of_nat (streamCount ''POSITION'' p + streamCount ''NORMAL'' p)"
      and o3: "vertexStride (morphPushConst m1) =
           of_nat (streamCount ''POSITION'' p + streamCount ''NORMAL'' p +
                   streamCount ''TANGENT'' p)"
      by blast+
    have "unat (normalOffset (morphPushConst m)) = streamCount ''POSITION'' p"
      unfolding pc o1 using s by (intro u) linarith
    moreover have "unat (tangentOffset (morphPushConst m)) =
        streamCount ''POSITION'' p + streamCount ''NORMAL'' p"
      unfolding pc o2 using s by (intro u) linarith
    moreover have "unat (vertexStride (morphPushConst m)) =
        streamCount ''POSITION'' p + streamCount ''NORMAL'' p + streamCount ''TANGENT'' p"
      unfolding pc o3 using s by (intro u)
    ultimately show ?thesis by simp
  qed
  from words nats show ?thesis by blast
qed

theorem morph_offsets_count_streams_witness:
  "isMorphTarget (Mesh_init\<lparr>isMorphTarget := True\<rparr>) \<and>
   loadPrimitive exampleFloatOps exampleModel (mat4_diag 1) (mat4_diag 1) 1 examplePrimitive
     (Mesh_init\<lparr>isMorphTarget := True\<rparr>) emptyState =
     Inr (loadedMorphMesh, loadedMorphState, False) \<and>
   3 * length (prim_targets examplePrimitive) < (2 :: nat) ^ 32 \<and>
   streamCount ''POSITION'' examplePrimitive = 2 \<and>
   streamCount ''NORMAL'' examplePrimitive = 0 \<and>
   streamCount ''TANGENT'' examplePrimitive = 0 \<and>
   unat (normalOffset (morphPushConst loadedMorphMesh)) = 2 \<and>
   unat (tangentOffset (morphPushConst loadedMorphMesh)) = 2 \<and>
   unat (vertexStride (morphPushConst loadedMorphMesh)) = 2"
proof -
  have m: "isMorphTarget (Mesh_init\<lparr>isMorphTarget := True\<rparr>)" by simp
  have c: "streamCount ''POSITION'' examplePrimitive = 2"
    "streamCount ''NORMAL'' examplePrimitive = 0"
    "streamCount ''TANGENT'' examplePrimitive = 0"
    "3 * length (prim_targets examplePrimitive) < (2 :: nat) ^ 32"
    by (simp_all add: streamCount_def examplePrimitive_def)
  show ?thesis
    using morph_offsets_count_streams [OF m ex_loadPrimitive_morph] c m ex_loadPrimitive_morph
    by simp
qed

subsection \<open>C3: the bias of the indices\<close>

text \<open>
  Claim C3: for every primitive of a static mesh, each emitted index equals the raw
  source index plus the static vertex-sequence length recorded before that primitive's
  vertices were appended, so (for raw indices within the primitive's declared vertex
  count) every emitted index lies within that mesh's own vertex range and never addresses
  another mesh's range; for every primitive of a morph mesh, each emitted index equals
  the raw source index unchanged.

  The first half of the theorem is about one primitive whose indices have a supported
  component type. The second half is about all primitives of a static mesh: the indices
  the mesh emits lie between the length of the static vertex sequence before the mesh
  and its length after the mesh, provided the raw indices of every primitive are below
  its vertex count and the vertex sequence is shorter than \<open>2 ^ 32\<close> (indices are
  \<open>uint32_t\<close>).
\<close>

theorem index_bias:
  "(loadPrimitive F model trs rs gs p pMesh st = Inr (m, st', False) \<longrightarrow>
      (if isMorphTarget pMesh
       then indexBufferMorph st' = indexBufferMorph st @ rawIndices model p \<and>
            indexBufferNormal st' = indexBufferNormal st
       else indexBufferNormal st' =
              indexBufferNormal st @
              map (\<lambda>b. b + of_nat (length (vertexBufferNormal st))) (rawIndices model p) \<and>
            indexBufferMorph st' = indexBufferMorph st)) \<and>
   (loadPrimitives F model trs rs gs ps pMesh st = Inr (m2, st2, r) \<longrightarrow>
    \<not> isMorphTarget pMesh \<longrightarrow>
    (\<forall>q \<in> set ps. 0 \<le> prim_indices q \<longrightarrow>
       (\<forall>b \<in> set (rawIndices model q). unat b < positionCount model q)) \<longrightarrow>
    length (vertexBufferNormal st2) < 2 ^ 32 \<longrightarrow>
      (\<exists>new. indexBufferNormal st2 = indexBufferNormal st @ new \<and>
         (\<forall>i \<in> set new. length (vertexBufferNormal st) \<le> unat i \<and>
                          unat i < length (vertexBufferNormal st2))))"
proof (intro conjI impI)
  assume l: "loadPrimitive F model trs rs gs p pMesh st = Inr (m, st', False)"
  from loadPrimitive_ibuf [OF l] loadPrimitive_frame [OF l]
  show "if isMorphTarget pMesh
       then indexBufferMorph st' = indexBufferMorph st @ rawIndices model p \<and>
            indexBufferNormal st' = indexBufferNormal st
       else indexBufferNormal st' =
              indexBufferNormal st @
              map (\<lambda>b. b + of_nat (length (vertexBufferNormal st))) (rawIndices model p) \<and>
            indexBufferMorph st' = indexBufferMorph st"
    by (cases "isMorphTarget pMesh") (simp_all add: vertexStartOf_def)
next
  assume "loadPrimitives F model trs rs gs ps pMesh st = Inr (m2, st2, r)"
    and "\<not> isMorphTarget pMesh"
    and "\<forall>q \<in> set ps. 0 \<le> prim_indices q \<longrightarrow>
       (\<forall>b \<in> set (rawIndices model q). unat b < positionCount model q)"
    and "length (vertexBufferNormal st2) < 2 ^ 32"
  then show "\<exists>new. indexBufferNormal st2 = indexBufferNormal st @ new \<and>
         (\<forall>i \<in> set new. length (vertexBufferNormal st) \<le> unat i \<and>
                          unat i < length (vertexBufferNormal st2))"
    by (rule loadPrimitives_static_range)
qed

theorem index_bias_witness:
  "loadPrimitive exampleFloatOps exampleModel (mat4_diag 1) (mat4_diag 1) 1 examplePrimitive
     loadedStaticMesh loadedStaticState = Inr (twoStaticMesh, twoStaticState, False) \<and>
   loadPrimitives exampleFloatOps exampleModel (mat4_diag 1) (mat4_diag 1) 1
     [examplePrimitive] loadedStaticMesh loadedStaticState =
     Inr (twoStaticMesh, twoStaticState, False) \<and>
   \<not> isMorphTarget loadedStaticMesh \<and>
   prim_indices examplePrimitive = 1 \<and>
   rawIndices exampleModel examplePrimitive = [0] \<and>
   positionCount exampleModel examplePrimitive = 1 \<and>
   length (vertexBufferNormal twoStaticState) < 2 ^ 32 \<and>
   length (vertexBufferNormal loadedStaticState) = 1 \<and>
   length (vertexBufferNormal twoStaticState) = 2 \<and>
   indexBufferNormal loadedStaticState = [0] \<and>
   indexBufferNormal twoStaticState = [0] @ map (\<lambda>b. b + 1) [0] \<and>
   (\<exists>new. indexBufferNormal twoStaticState = indexBufferNormal loadedStaticState @ new \<and>
      (\<forall>i \<in> set new. 1 \<le> unat i \<and> unat i < 2)) \<and>
   loadPrimitive exampleFloatOps exampleModel (mat4_diag 1) (mat4_diag 1) 1 examplePrimitive
     loadedMorphMesh loadedMorphState = Inr (twoMorphMesh, twoMorphState, False) \<and>
   isMorphTarget loadedMorphMesh \<and>
   indexBufferMorph twoMorphState = indexBufferMorph loadedMorphState @ [0]"
proof -
  have s: "\<not> isMorphTarget loadedStaticMesh"
    by (simp add: loadedStaticMesh_def Mesh_init_def)
  have mo: "isMorphTarget loadedMorphMesh"
    by (simp add: loadedMorphMesh_def Mesh_init_def)
  have raw: "\<forall>q \<in> set [examplePrimitive]. 0 \<le> prim_indices q \<longrightarrow>
      (\<forall>b \<in> set (rawIndices exampleModel q). unat b < positionCount exampleModel q)"
    by (simp add: ex_rawIndices ex_positionCount)
  have l1: "length (vertexBufferNormal loadedStaticState) = 1"
    and l2: "length (vertexBufferNormal twoStaticState) = 2"
    and l3: "length (vertexBufferNormal twoStaticState) < 2 ^ 32"
    and i1: "indexBufferNormal loadedStaticState = [0]"
    by (simp_all add: loadedStaticState_def twoStaticState_def)
  note t = index_bias [of exampleFloatOps exampleModel "mat4_diag 1" "mat4_diag 1" 1
      examplePrimitive loadedStaticMesh loadedStaticState twoStaticMesh twoStaticState
      "[examplePrimitive]" twoStaticMesh twoStaticState False]
  from t ex_second_static s
  have a: "indexBufferNormal twoStaticState = [0] @ map (\<lambda>b. b + 1) [0]"
    by (simp add: ex_rawIndices l1 i1)
  from t ex_two_static s raw l3
  have b: "\<exists>new. indexBufferNormal twoStaticState = indexBufferNormal loadedStaticState @ new \<and>
      (\<forall>i \<in> set new. 1 \<le> unat i \<and> unat i < 2)"
    by (simp add: l1 l2)
  note u = index_bias [of exampleFloatOps exampleModel "mat4_diag 1" "mat4_diag 1" 1
      examplePrimitive loadedMorphMesh loadedMorphState twoMorphMesh twoMorphState
      "[]" loadedMorphMesh loadedMorphState False]
  from u ex_second_morph mo
  have c: "indexBufferMorph twoMorphState = indexBufferMorph loadedMorphState @ [0]"
    by (simp add: ex_rawIndices)
  show ?thesis
    by (intro conjI)
      (rule ex_second_static ex_two_static s ex_indices ex_rawIndices ex_positionCount
        l1 l2 l3 i1 a b ex_second_morph mo c)+
qed

subsection \<open>C4: a morph mesh without a weights animation\<close>

text \<open>
  Claim C4: for every morph mesh (non-empty initial weight list) whose node has no
  animation channel targeting it with path \<open>weights\<close>, after loading, the mesh's
  \<open>weightsTime\<close> and \<open>weightsData\<close> are empty, and the mesh's push-constant weights equal
  its initial weights.

  The second half fails: no line of the loader writes \<open>morphPushConst.weights\<close>, which
  keeps the zeros of \<open>Mesh{}\<close>. For node 1 of the example, whose mesh has the initial
  weights \<open>[0.5, 0.5]\<close>, the loaded mesh has \<open>weightsInit = [0.5, 0.5]\<close> and the
  push-constant weights \<open>[0, 0, 0, 0, 0, 0, 0, 0]\<close>.
\<close>

theorem push_constant_weights_not_initial:
  "mesh_weights (model_meshes exampleModel ! 1) = [1 / 2, 1 / 2] \<and>
   firstWeightsChannel (model_animations exampleModel) 1 = None \<and>
   loadNodeMesh exampleFloatOps exampleModel morphNode 1 (mat4_diag 1) 1 emptyState =
     Inr loadedMorphNodeState \<and>
   map weightsInit (meshesMorph loadedMorphNodeState) = [[1 / 2, 1 / 2]] \<and>
   map (\<lambda>m. weights (morphPushConst m)) (meshesMorph loadedMorphNodeState) =
     [[0, 0, 0, 0, 0, 0, 0, 0]] \<and>
   map (\<lambda>m. take 2 (weights (morphPushConst m))) (meshesMorph loadedMorphNodeState) \<noteq>
     map weightsInit (meshesMorph loadedMorphNodeState)"
proof -
  have 1: "mesh_weights (model_meshes exampleModel ! 1) = [1 / 2, 1 / 2]"
    by (simp add: exampleModel_def)
  have 2: "firstWeightsChannel (model_animations exampleModel) 1 = None"
    by (simp add: exampleModel_def firstWeightsChannel_def weightsChannels_def)
  have 3: "map weightsInit (meshesMorph loadedMorphNodeState) = [[1 / 2, 1 / 2]]"
    by (simp add: loadedMorphNodeState_def)
  have 4: "map (\<lambda>m. weights (morphPushConst m)) (meshesMorph loadedMorphNodeState) =
     [[0, 0, 0, 0, 0, 0, 0, 0]]"
    by (simp add: loadedMorphNodeState_def loadedMorphMesh_def MAX_WEIGHTS_def eval_nat_numeral)
  have 5: "map (\<lambda>m. take 2 (weights (morphPushConst m))) (meshesMorph loadedMorphNodeState) \<noteq>
     map weightsInit (meshesMorph loadedMorphNodeState)"
    by (simp add: loadedMorphNodeState_def loadedMorphMesh_def MAX_WEIGHTS_def eval_nat_numeral)
  show ?thesis by (intro conjI) (rule 1 2 3 4 5 ex_loadNodeMesh_morph)+
qed

text \<open>
  Claim C4 as amended: for every morph mesh whose node has no animation channel
  targeting it with path \<open>weights\<close>, after loading, the mesh's \<open>weightsTime\<close> and
  \<open>weightsData\<close> are empty, its \<open>weightsInit\<close> holds the first \<open>MAX_WEIGHTS\<close> initial weights
  (converted to float), and its push-constant weights are the \<open>MAX_WEIGHTS\<close> zeros of a
  fresh mesh: the loader leaves them to whoever plays the animation.
\<close>

theorem unanimated_morph_mesh:
  assumes "0 \<le> node_mesh node"
    and "elem_at (model_meshes model) (size_t (node_mesh node)) = Inr mesh"
    and "mesh_weights mesh \<noteq> []"
    and "\<forall>animation \<in> set (model_animations model).
           \<forall>channel \<in> set (anim_channels animation). \<not> channelMatches nodeIndex channel"
    and "loadNodeMesh F model node nodeIndex trs gs st = Inr st'"
  shows "\<exists>m. meshesMorph st' = meshesMorph st @ [m] \<and>
           weightsTime m = [] \<and> weightsData m = [] \<and>
           weightsInit m = map (f32_of_double F) (take MAX_WEIGHTS (mesh_weights mesh)) \<and>
           weights (morphPushConst m) = replicate MAX_WEIGHTS 0"
proof -
  have none: "firstWeightsChannel (model_animations model) nodeIndex = None"
    using assms(4) by (simp add: firstWeightsChannel_None)
  from assms(5) assms(1) assms(2) obtain m where
    1: "isMorphTarget m = (mesh_weights mesh \<noteq> [])"
    and 2: "meshesMorph st' = (if isMorphTarget m then meshesMorph st @ [m] else meshesMorph st)"
    and 4: "weights (morphPushConst m) = replicate MAX_WEIGHTS 0"
    and 6: "mesh_weights mesh \<noteq> [] \<longrightarrow>
        weightsInit m = map (f32_of_double F) (take MAX_WEIGHTS (mesh_weights mesh)) \<and>
        (firstWeightsChannel (model_animations model) nodeIndex = None \<longrightarrow>
           weightsTime m = [] \<and> weightsData m = [])"
    by (rule loadNodeMesh_pushed)
  from 1 assms(3) have im: "isMorphTarget m" by simp
  from 2 im have a: "meshesMorph st' = meshesMorph st @ [m]" by simp
  from 6 assms(3) none have b: "weightsTime m = []" and c: "weightsData m = []"
    and d: "weightsInit m = map (f32_of_double F) (take MAX_WEIGHTS (mesh_weights mesh))"
    by simp_all
  from a b c d 4 show ?thesis by (intro exI [of _ m] conjI)
qed

theorem unanimated_morph_mesh_witness:
  "0 \<le> node_mesh morphNode \<and>
   elem_at (model_meshes exampleModel) (size_t (node_mesh morphNode)) =
     Inr \<lparr>mesh_weights = [1 / 2, 1 / 2], mesh_primitives = [examplePrimitive]\<rparr> \<and>
   model_animations exampleModel = [] \<and>
   loadNodeMesh exampleFloatOps exampleModel morphNode 1 (mat4_diag 1) 1 emptyState =
     Inr loadedMorphNodeState \<and>
   (\<exists>m. meshesMorph loadedMorphNodeState = meshesMorph emptyState @ [m] \<and>
        weightsTime m = [] \<and> weightsData m = [] \<and> weightsInit m = [1 / 2, 1 / 2] \<and>
        weights (morphPushConst m) = [0, 0, 0, 0, 0, 0, 0, 0])"
proof -
  have a: "0 \<le> node_mesh morphNode" by (simp add: ex_nodes)
  have b: "elem_at (model_meshes exampleModel) (size_t (node_mesh morphNode)) =
     Inr \<lparr>mesh_weights = [1 / 2, 1 / 2], mesh_primitives = [examplePrimitive]\<rparr>"
    by (simp add: ex_nodes size_t_def ex_meshes)
  have c: "mesh_weights \<lparr>mesh_weights = [1 / 2, 1 / 2 :: real], mesh_primitives = [examplePrimitive]\<rparr> \<noteq> []"
    by simp
  have d: "\<forall>animation \<in> set (model_animations exampleModel).
      \<forall>channel \<in> set (anim_channels animation). \<not> channelMatches 1 channel"
    by (simp add: exampleModel_def)
  have e: "\<exists>m. meshesMorph loadedMorphNodeState = meshesMorph emptyState @ [m] \<and>
        weightsTime m = [] \<and> weightsData m = [] \<and> weightsInit m = [1 / 2, 1 / 2] \<and>
        weights (morphPushConst m) = [0, 0, 0, 0, 0, 0, 0, 0]"
    using unanimated_morph_mesh [OF a b c d ex_loadNodeMesh_morph]
    by (simp add: MAX_WEIGHTS_def exampleFloatOps_def eval_nat_numeral)
  have d': "model_animations exampleModel = []"
    by (simp add: exampleModel_def)
  show ?thesis by (intro conjI) (rule a b d' e ex_loadNodeMesh_morph)+
qed

subsection \<open>C5: an index accessor of an unsupported component type\<close>

text \<open>
  Claim C5: when a primitive's index accessor declares a component type outside
  \<open>{uint8, uint16, uint32}\<close>, loading reports an error and abandons that primitive's
  indexing by returning early from the loop, so primitives after the fault in the same
  node are skipped and the process does not crash.

  In the theorem the node's mesh has the primitives \<open>ps1 @ p # ps2\<close>; those before the
  faulty primitive \<open>p\<close> have been loaded without an early return, and the vertices of
  \<open>p\<close> have been read. Then the loop over the primitives ends with a result (no
  failure), left by the \<open>return\<close>, with the component type reported on \<open>std::cerr\<close> and
  no index emitted for \<open>p\<close>; the result does not depend on \<open>ps2\<close>, whose primitives are
  never looked at. \<open>loadNode\<close> itself returns, the mesh collected as far as it got.
\<close>

theorem unsupported_index_type:
  assumes "0 \<le> node_mesh node"
    and "elem_at (model_meshes model) (size_t (node_mesh node)) = Inr mesh"
    and "mesh_primitives mesh = ps1 @ p # ps2"
    and "classifyMesh F model mesh nodeIndex st0 = Inr (pMesh, st)"
    and "loadPrimitives F model trs (localNodeRSMatrix F node) gs ps1 pMesh st = Inr (m1, st1, False)"
    and "0 \<le> prim_indices p"
    and "loadVertices F model trs (localNodeRSMatrix F node) gs p (startPrimitive p m1 st1) st1 =
           Inr (m2, st2)"
    and "accessorData model (size_t (prim_indices p)) = Inr (accessor, ptr)"
    and "acc_componentType accessor \<noteq> TINYGLTF_PARAMETER_TYPE_UNSIGNED_INT"
    and "acc_componentType accessor \<noteq> TINYGLTF_PARAMETER_TYPE_UNSIGNED_SHORT"
    and "acc_componentType accessor \<noteq> TINYGLTF_PARAMETER_TYPE_UNSIGNED_BYTE"
  shows "loadPrimitives F model trs (localNodeRSMatrix F node) gs (ps1 @ p # ps2) pMesh st =
           Inr (m2\<lparr>primitives :=
                     update_back (\<lambda>pPrimitive. pPrimitive\<lparr>indexCount := of_nat (acc_count accessor)\<rparr>)
                       (primitives m2)\<rparr>,
                st2\<lparr>cerr := cerr st2 @
                       [IndexComponentTypeNotSupported (acc_componentType accessor)]\<rparr>,
                True) \<and>
         loadNodeMesh F model node nodeIndex trs gs st0 =
           Inr (pushMesh
                  (m2\<lparr>primitives :=
                        update_back (\<lambda>pPrimitive. pPrimitive\<lparr>indexCount := of_nat (acc_count accessor)\<rparr>)
                          (primitives m2)\<rparr>)
                  (st2\<lparr>cerr := cerr st2 @
                          [IndexComponentTypeNotSupported (acc_componentType accessor)]\<rparr>)) \<and>
         cerr st2 = cerr st1 \<and>
         indexBufferMorph st2 = indexBufferMorph st1 \<and>
         indexBufferNormal st2 = indexBufferNormal st1"
proof -
  have one: "loadPrimitive F model trs (localNodeRSMatrix F node) gs p m1 st1 =
           Inr (m2\<lparr>primitives :=
                     update_back (\<lambda>pPrimitive. pPrimitive\<lparr>indexCount := of_nat (acc_count accessor)\<rparr>)
                       (primitives m2)\<rparr>,
                st2\<lparr>cerr := cerr st2 @
                       [IndexComponentTypeNotSupported (acc_componentType accessor)]\<rparr>,
                True)"
    by (simp add: loadPrimitive_def assms(7)
        loadIndices_unsupported [OF assms(8) assms(9) assms(10) assms(11)])
  have "loadPrimitives F model trs (localNodeRSMatrix F node) gs (p # ps2) m1 st1 =
           Inr (m2\<lparr>primitives :=
                     update_back (\<lambda>pPrimitive. pPrimitive\<lparr>indexCount := of_nat (acc_count accessor)\<rparr>)
                       (primitives m2)\<rparr>,
                st2\<lparr>cerr := cerr st2 @
                       [IndexComponentTypeNotSupported (acc_componentType accessor)]\<rparr>,
                True)"
    using assms(6) by (simp add: one)
  then have loop: "loadPrimitives F model trs (localNodeRSMatrix F node) gs (ps1 @ p # ps2) pMesh st =
           Inr (m2\<lparr>primitives :=
                     update_back (\<lambda>pPrimitive. pPrimitive\<lparr>indexCount := of_nat (acc_count accessor)\<rparr>)
                       (primitives m2)\<rparr>,
                st2\<lparr>cerr := cerr st2 @
                       [IndexComponentTypeNotSupported (acc_componentType accessor)]\<rparr>,
                True)"
    by (simp add: loadPrimitives_append assms(5) del: loadPrimitives.simps)
  have nn: "\<not> node_mesh node < 0" using assms(1) by simp
  have node: "loadNodeMesh F model node nodeIndex trs gs st0 =
           Inr (pushMesh
                  (m2\<lparr>primitives :=
                        update_back (\<lambda>pPrimitive. pPrimitive\<lparr>indexCount := of_nat (acc_count accessor)\<rparr>)
                          (primitives m2)\<rparr>)
                  (st2\<lparr>cerr := cerr st2 @
                          [IndexComponentTypeNotSupported (acc_componentType accessor)]\<rparr>))"
    by (simp add: loadNodeMesh_def nn assms(2) assms(4) assms(3) loop del: loadPrimitives.simps)
  from loop node loadVertices_frame [OF assms(7)] show ?thesis by simp
qed

theorem unsupported_index_type_witness:
  "0 \<le> node_mesh faultyNode \<and>
   elem_at (model_meshes exampleModel) (size_t (node_mesh faultyNode)) =
     Inr \<lparr>mesh_weights = [],
          mesh_primitives = [examplePrimitive] @ faultyPrimitive # [examplePrimitive]\<rparr> \<and>
   classifyMesh exampleFloatOps exampleModel
     \<lparr>mesh_weights = [],
      mesh_primitives = [examplePrimitive] @ faultyPrimitive # [examplePrimitive]\<rparr> 2 emptyState =
     Inr (Mesh_init, emptyState) \<and>
   loadPrimitives exampleFloatOps exampleModel (mat4_diag 1)
     (localNodeRSMatrix exampleFloatOps faultyNode) 1
     [examplePrimitive] Mesh_init emptyState = Inr (loadedStaticMesh, loadedStaticState, False) \<and>
   0 \<le> prim_indices faultyPrimitive \<and>
   loadVertices exampleFloatOps exampleModel (mat4_diag 1)
     (localNodeRSMatrix exampleFloatOps faultyNode) 1 faultyPrimitive
     (startPrimitive faultyPrimitive loadedStaticMesh loadedStaticState) loadedStaticState =
     Inr (startPrimitive faultyPrimitive loadedStaticMesh loadedStaticState,
          loadedStaticState\<lparr>vertexBufferNormal := [exampleVertex, exampleVertex]\<rparr>) \<and>
   accessorData exampleModel (size_t (prim_indices faultyPrimitive)) =
     Inr (\<lparr>acc_bufferView = 1, acc_byteOffset = 0, acc_componentType = 5122, acc_count = 1\<rparr>,
          ([1, 0, 0, 0, 2, 0, 0, 0, 3, 0, 0, 0, 0], 12)) \<and>
   (5122 :: int) \<noteq> TINYGLTF_PARAMETER_TYPE_UNSIGNED_INT \<and>
   (5122 :: int) \<noteq> TINYGLTF_PARAMETER_TYPE_UNSIGNED_SHORT \<and>
   (5122 :: int) \<noteq> TINYGLTF_PARAMETER_TYPE_UNSIGNED_BYTE \<and>
   loadPrimitives exampleFloatOps exampleModel (mat4_diag 1)
     (localNodeRSMatrix exampleFloatOps faultyNode) 1
     [examplePrimitive, faultyPrimitive, examplePrimitive] Mesh_init emptyState =
     Inr (twoStaticMesh, faultyState, True) \<and>
   loadNodeMesh exampleFloatOps exampleModel faultyNode 2 (mat4_diag 1) 1 emptyState =
     Inr (faultyState\<lparr>meshesNormal := [twoStaticMesh]\<rparr>) \<and>
   vertexBufferNormal faultyState = [exampleVertex, exampleVertex] \<and>
   indexBufferNormal faultyState = [0] \<and>
   cerr faultyState = [IndexComponentTypeNotSupported 5122]"
proof -
  have s: "\<not> isMorphTarget (startPrimitive faultyPrimitive loadedStaticMesh loadedStaticState)"
    by (simp add: loadedStaticMesh_def Mesh_init_def)
  have n1: "0 \<le> node_mesh faultyNode" by (simp add: ex_nodes)
  have n2: "elem_at (model_meshes exampleModel) (size_t (node_mesh faultyNode)) =
     Inr \<lparr>mesh_weights = [],
          mesh_primitives = [examplePrimitive] @ faultyPrimitive # [examplePrimitive]\<rparr>"
    by (simp add: ex_nodes size_t_def ex_meshes)
  have n3: "mesh_primitives
      \<lparr>mesh_weights = ([] :: real list),
       mesh_primitives = [examplePrimitive] @ faultyPrimitive # [examplePrimitive]\<rparr> =
      [examplePrimitive] @ faultyPrimitive # [examplePrimitive]"
    by simp
  have n4: "classifyMesh exampleFloatOps exampleModel
     \<lparr>mesh_weights = [],
      mesh_primitives = [examplePrimitive] @ faultyPrimitive # [examplePrimitive]\<rparr> 2 emptyState =
     Inr (Mesh_init, emptyState)"
    by (rule ex_classify_static)
  have h0: "loadPrimitives exampleFloatOps exampleModel (mat4_diag 1)
     (localNodeRSMatrix exampleFloatOps faultyNode) 1
     [examplePrimitive] Mesh_init emptyState = Inr (loadedStaticMesh, loadedStaticState, False)"
    using ex_one_static by (simp add: ex_localNodeRSMatrix del: loadPrimitives.simps)
  have h1: "0 \<le> prim_indices faultyPrimitive" by (simp add: faultyPrimitive_def)
  have h2: "loadVertices exampleFloatOps exampleModel (mat4_diag 1)
     (localNodeRSMatrix exampleFloatOps faultyNode) 1 faultyPrimitive
     (startPrimitive faultyPrimitive loadedStaticMesh loadedStaticState) loadedStaticState =
     Inr (startPrimitive faultyPrimitive loadedStaticMesh loadedStaticState,
          loadedStaticState\<lparr>vertexBufferNormal := [exampleVertex, exampleVertex]\<rparr>)"
    by (simp add: ex_localNodeRSMatrix ex_loadVertices_faulty [OF s])
      (simp add: loadedStaticState_def)
  have t: "acc_componentType
             \<lparr>acc_bufferView = 1, acc_byteOffset = 0, acc_componentType = 5122, acc_count = 1\<rparr>
           \<noteq> TINYGLTF_PARAMETER_TYPE_UNSIGNED_INT"
    "acc_componentType
             \<lparr>acc_bufferView = 1, acc_byteOffset = 0, acc_componentType = 5122, acc_count = 1\<rparr>
           \<noteq> TINYGLTF_PARAMETER_TYPE_UNSIGNED_SHORT"
    "acc_componentType
             \<lparr>acc_bufferView = 1, acc_byteOffset = 0, acc_componentType = 5122, acc_count = 1\<rparr>
           \<noteq> TINYGLTF_PARAMETER_TYPE_UNSIGNED_BYTE"
    by (simp_all add: TINYGLTF_PARAMETER_TYPE_UNSIGNED_INT_def
        TINYGLTF_PARAMETER_TYPE_UNSIGNED_SHORT_def TINYGLTF_PARAMETER_TYPE_UNSIGNED_BYTE_def)
  have t': "(5122 :: int) \<noteq> TINYGLTF_PARAMETER_TYPE_UNSIGNED_INT"
    "(5122 :: int) \<noteq> TINYGLTF_PARAMETER_TYPE_UNSIGNED_SHORT"
    "(5122 :: int) \<noteq> TINYGLTF_PARAMETER_TYPE_UNSIGNED_BYTE"
    using t by simp_all
  have res: "startPrimitive faultyPrimitive loadedStaticMesh loadedStaticState
        \<lparr>primitives := update_back (\<lambda>pPrimitive. pPrimitive\<lparr>indexCount := 1\<rparr>)
            (primitives (startPrimitive faultyPrimitive loadedStaticMesh loadedStaticState))\<rparr>
      = twoStaticMesh"
    by (simp add: startPrimitive_def update_back_def vertexStartOf_def sizeof_Vertex_def
        twoStaticMesh_def loadedStaticMesh_def loadedStaticState_def Mesh_init_def
        faultyPrimitive_def)
  have st: "loadedStaticState\<lparr>vertexBufferNormal := [exampleVertex, exampleVertex],
        cerr := cerr loadedStaticState @ [IndexComponentTypeNotSupported 5122]\<rparr> = faultyState"
    by (simp add: faultyState_def loadedStaticState_def emptyState_def)
  have pm: "pushMesh twoStaticMesh faultyState = faultyState\<lparr>meshesNormal := [twoStaticMesh]\<rparr>"
    by (simp add: pushMesh_def twoStaticMesh_def loadedStaticMesh_def Mesh_init_def
        faultyState_def loadedStaticState_def emptyState_def)
  note u = unsupported_index_type [OF n1 n2 n3 n4 h0 h1 h2 ex_acc2 t]
  have r1: "loadPrimitives exampleFloatOps exampleModel (mat4_diag 1)
     (localNodeRSMatrix exampleFloatOps faultyNode) 1
     [examplePrimitive, faultyPrimitive, examplePrimitive] Mesh_init emptyState =
     Inr (twoStaticMesh, faultyState, True)"
    using conjunct1 [OF u] by (simp add: res st del: loadPrimitives.simps)
  have r2: "loadNodeMesh exampleFloatOps exampleModel faultyNode 2 (mat4_diag 1) 1 emptyState =
     Inr (faultyState\<lparr>meshesNormal := [twoStaticMesh]\<rparr>)"
    using conjunct1 [OF conjunct2 [OF u]] by (simp add: res st pm)
  have f: "vertexBufferNormal faultyState = [exampleVertex, exampleVertex]"
    "indexBufferNormal faultyState = [0]"
    "cerr faultyState = [IndexComponentTypeNotSupported 5122]"
    by (simp_all add: faultyState_def loadedStaticState_def emptyState_def)
  show ?thesis
    by (intro conjI) (rule n1 n2 n4 h0 h1 h2 ex_acc2 t' r1 r2 f)+
qed

subsection \<open>C6: packing a single position target\<close>

text \<open>
  Claim C6: packing a primitive that has exactly one morph target providing only
  \<open>POSITION\<close> deltas, under an identity local transform and \<open>globalscale = 1\<close>, appends to
  the shared morph pack array exactly the source delta of every vertex with the Y
  component negated; in particular, for inputs whose Y component is zero the source
  delta is reproduced unchanged.

  The identity is \<open>mat4_diag 1\<close>, which is the rotation-and-scale matrix of every node
  without rotation, scale and matrix (\<open>localNodeRSMatrix_identity\<close>). The number of
  vertices is held in a \<open>uint32_t\<close>, hence the bound on the accessor's count.
\<close>

theorem single_position_target_roundtrip:
  assumes "prim_targets p = [t]"
    and "t ''POSITION'' = Some a" and "t ''NORMAL'' = None" and "t ''TANGENT'' = None"
    and "accessorData model (size_t a) = Inr (accessor, ptr)"
    and "acc_count accessor < 2 ^ 32"
    and "bytes_readable ptr (4 * (3 * acc_count accessor))"
  shows "(\<exists>m. packMorph F model (mat4_diag 1) 1 p pMesh st =
            Inr (m, st\<lparr>morphVertexData :=
                        morphVertexData st @
                        concat (map (\<lambda>i. case make_vec3_at F ptr i of (x, y, z) \<Rightarrow> [x, - y, z])
                                  [0..<acc_count accessor])\<rparr>)) \<and>
         ((\<forall>i < acc_count accessor. fst (snd (make_vec3_at F ptr i)) = 0) \<longrightarrow>
            concat (map (\<lambda>i. case make_vec3_at F ptr i of (x, y, z) \<Rightarrow> [x, - y, z])
                      [0..<acc_count accessor]) =
            concat (map (\<lambda>i. case make_vec3_at F ptr i of (x, y, z) \<Rightarrow> [x, y, z])
                      [0..<acc_count accessor]))"
proof
  have ps: "morphStreams model ''POSITION'' (prim_targets p) = Inr [(accessor, ptr)]"
    by (simp add: assms(1,2,5))
  have ns: "morphStreams model ''NORMAL'' (prim_targets p) = Inr []"
    by (simp add: assms(1,3))
  have ts: "morphStreams model ''TANGENT'' (prim_targets p) = Inr []"
    by (simp add: assms(1,4))
  have n: "unat (of_nat (acc_count accessor) :: 32 word) = acc_count accessor"
    using assms(6) by (simp add: unat_of_nat)
  show "\<exists>m. packMorph F model (mat4_diag 1) 1 p pMesh st =
            Inr (m, st\<lparr>morphVertexData :=
                        morphVertexData st @
                        concat (map (\<lambda>i. case make_vec3_at F ptr i of (x, y, z) \<Rightarrow> [x, - y, z])
                                  [0..<acc_count accessor])\<rparr>)"
    using assms(7)
    by (simp add: packMorph_def ps ns ts n packSlot_identity_position Let_def)
next
  show "(\<forall>i < acc_count accessor. fst (snd (make_vec3_at F ptr i)) = 0) \<longrightarrow>
            concat (map (\<lambda>i. case make_vec3_at F ptr i of (x, y, z) \<Rightarrow> [x, - y, z])
                      [0..<acc_count accessor]) =
            concat (map (\<lambda>i. case make_vec3_at F ptr i of (x, y, z) \<Rightarrow> [x, y, z])
                      [0..<acc_count accessor])"
  proof
    assume z: "\<forall>i < acc_count accessor. fst (snd (make_vec3_at F ptr i)) = 0"
    have "map (\<lambda>i. case make_vec3_at F ptr i of (x, y, z) \<Rightarrow> [x, - y, z]) [0..<acc_count accessor] =
          map (\<lambda>i. case make_vec3_at F ptr i of (x, y, z) \<Rightarrow> [x, y, z]) [0..<acc_count accessor]"
    proof (rule map_cong [OF refl])
      fix i assume "i \<in> set [0..<acc_count accessor]"
      then have "fst (snd (make_vec3_at F ptr i)) = 0" using z by simp
      then show "(case make_vec3_at F ptr i of (x, y, z) \<Rightarrow> [x, - y, z]) =
                 (case make_vec3_at F ptr i of (x, y, z) \<Rightarrow> [x, y, z])"
        by (cases "make_vec3_at F ptr i") auto
    qed
    then show "concat (map (\<lambda>i. case make_vec3_at F ptr i of (x, y, z) \<Rightarrow> [x, - y, z])
                      [0..<acc_count accessor]) =
            concat (map (\<lambda>i. case make_vec3_at F ptr i of (x, y, z) \<Rightarrow> [x, y, z])
                      [0..<acc_count accessor])"
      by (rule arg_cong)
  qed
qed

theorem single_position_target_roundtrip_witness:
  "prim_targets singleTargetPrimitive = [[''POSITION'' \<mapsto> 0]] \<and>
   [''POSITION'' \<mapsto> (0 :: int)] ''POSITION'' = Some 0 \<and>
   [''POSITION'' \<mapsto> (0 :: int)] ''NORMAL'' = None \<and>
   [''POSITION'' \<mapsto> (0 :: int)] ''TANGENT'' = None \<and>
   accessorData exampleModel (size_t 0) =
     Inr (\<lparr>acc_bufferView = 0, acc_byteOffset = 0, acc_componentType = 5126, acc_count = 1\<rparr>,
          ([1, 0, 0, 0, 2, 0, 0, 0, 3, 0, 0, 0, 0], 0)) \<and>
   (1 :: nat) < 2 ^ 32 \<and>
   bytes_readable ([1, 0, 0, 0, 2, 0, 0, 0, 3, 0, 0, 0, 0], 0) (4 * (3 * 1)) \<and>
   make_vec3_at exampleFloatOps ([1, 0, 0, 0, 2, 0, 0, 0, 3, 0, 0, 0, 0], 0) 0 = (1, 2, 3) \<and>
   (\<exists>m. packMorph exampleFloatOps exampleModel (mat4_diag 1) 1 singleTargetPrimitive
           (Mesh_init\<lparr>isMorphTarget := True\<rparr>) emptyState =
         Inr (m, emptyState\<lparr>morphVertexData := [1, - 2, 3]\<rparr>))"
proof -
  have h1: "prim_targets singleTargetPrimitive = [[''POSITION'' \<mapsto> 0]]"
    by (simp add: singleTargetPrimitive_def)
  have h2: "[''POSITION'' \<mapsto> (0 :: int)] ''POSITION'' = Some 0"
    and h3: "[''POSITION'' \<mapsto> (0 :: int)] ''NORMAL'' = None"
    and h4: "[''POSITION'' \<mapsto> (0 :: int)] ''TANGENT'' = None"
    by simp_all
  have h5: "accessorData exampleModel (size_t 0) =
     Inr (\<lparr>acc_bufferView = 0, acc_byteOffset = 0, acc_componentType = 5126, acc_count = 1\<rparr>,
          ([1, 0, 0, 0, 2, 0, 0, 0, 3, 0, 0, 0, 0], 0))"
    by (simp add: size_t_def ex_acc0)
  have h6: "acc_count \<lparr>acc_bufferView = 0, acc_byteOffset = 0, acc_componentType = 5126,
                       acc_count = 1\<rparr> < 2 ^ 32"
    by simp
  have h6': "(1 :: nat) < 2 ^ 32" by simp
  have h7: "bytes_readable ([1, 0, 0, 0, 2, 0, 0, 0, 3, 0, 0, 0, 0], 0)
              (4 * (3 * acc_count \<lparr>acc_bufferView = 0, acc_byteOffset = 0,
                                    acc_componentType = 5126, acc_count = 1\<rparr>))"
    by (simp add: bytes_readable_def)
  have h7': "bytes_readable ([1, 0, 0, 0, 2, 0, 0, 0, 3, 0, 0, 0, 0], 0) (4 * (3 * 1))"
    using h7 by simp
  have v: "make_vec3_at exampleFloatOps ([1, 0, 0, 0, 2, 0, 0, 0, 3, 0, 0, 0, 0], 0) 0 = (1, 2, 3)"
    by (simp add: make_vec3_at_def floatAt_def exampleFloatOps_def)
  from conjunct1 [OF single_position_target_roundtrip [OF h1 h2 h3 h4 h5 h6 h7,
      of exampleFloatOps "Mesh_init\<lparr>isMorphTarget := True\<rparr>" emptyState]]
  have r: "\<exists>m. packMorph exampleFloatOps exampleModel (mat4_diag 1) 1 singleTargetPrimitive
           (Mesh_init\<lparr>isMorphTarget := True\<rparr>) emptyState =
         Inr (m, emptyState\<lparr>morphVertexData := [1, - 2, 3]\<rparr>)"
    by (simp add: v emptyState_def upt_rec)
  show ?thesis
    by (intro conjI) (rule h1 h2 h3 h4 h5 h6' h7' v r)+
qed

subsection \<open>C7: the animation sampler bound to a morph mesh\<close>



subsection \<open>C8: static and morph meshes\<close>

text \<open>
  Claim C8: for every mesh-bearing node visited during flattening, the mesh is classified
  \<open>MorphTarget\<close> and appended to the morph mesh collection if and only if its source mesh
  declares a non-empty weights list; otherwise it is classified \<open>Static\<close> and appended to
  the static mesh collection.

  The theorem is about the part of \<open>loadNode\<close> that follows the recursion into the
  children, for a node with a mesh, when it returns.
\<close>

theorem mesh_classification:
  assumes "0 \<le> node_mesh node"
    and "elem_at (model_meshes model) (size_t (node_mesh node)) = Inr mesh"
    and "loadNodeMesh F model node nodeIndex trs gs st = Inr st'"
  shows "if mesh_weights mesh \<noteq> []
         then (\<exists>m. isMorphTarget m \<and> meshesMorph st' = meshesMorph st @ [m]) \<and>
              meshesNormal st' = meshesNormal st
         else (\<exists>m. \<not> isMorphTarget m \<and> meshesNormal st' = meshesNormal st @ [m]) \<and>
              meshesMorph st' = meshesMorph st"
proof -
  from assms(3) assms(1) assms(2) obtain m where
    1: "isMorphTarget m = (mesh_weights mesh \<noteq> [])"
    and 2: "meshesMorph st' = (if isMorphTarget m then meshesMorph st @ [m] else meshesMorph st)"
    and 3: "meshesNormal st' = (if isMorphTarget m then meshesNormal st else meshesNormal st @ [m])"
    by (rule loadNodeMesh_pushed)
  show ?thesis
  proof (cases "mesh_weights mesh = []")
    case True
    with 1 have "\<not> isMorphTarget m" by simp
    with 2 3 True show ?thesis by auto
  next
    case False
    with 1 have "isMorphTarget m" by simp
    with 2 3 False show ?thesis by auto
  qed
qed

theorem mesh_classification_witness:
  "0 \<le> node_mesh morphNode \<and>
   elem_at (model_meshes exampleModel) (size_t (node_mesh morphNode)) =
     Inr \<lparr>mesh_weights = [1 / 2, 1 / 2], mesh_primitives = [examplePrimitive]\<rparr> \<and>
   loadNodeMesh exampleFloatOps exampleModel morphNode 1 (mat4_diag 1) 1 emptyState =
     Inr loadedMorphNodeState \<and>
   (\<exists>m. isMorphTarget m \<and> meshesMorph loadedMorphNodeState = meshesMorph emptyState @ [m]) \<and>
   meshesNormal loadedMorphNodeState = meshesNormal emptyState \<and>
   0 \<le> node_mesh staticNode \<and>
   elem_at (model_meshes exampleModel) (size_t (node_mesh staticNode)) =
     Inr \<lparr>mesh_weights = [], mesh_primitives = [examplePrimitive]\<rparr> \<and>
   loadNodeMesh exampleFloatOps exampleModel staticNode 0 (mat4_diag 1) 1 emptyState =
     Inr loadedStaticNodeState \<and>
   (\<exists>m. \<not> isMorphTarget m \<and> meshesNormal loadedStaticNodeState = meshesNormal emptyState @ [m]) \<and>
   meshesMorph loadedStaticNodeState = meshesMorph emptyState"
proof -
  have a1: "0 \<le> node_mesh morphNode" and a2: "0 \<le> node_mesh staticNode"
    by (simp_all add: ex_nodes)
  have b1: "elem_at (model_meshes exampleModel) (size_t (node_mesh morphNode)) =
     Inr \<lparr>mesh_weights = [1 / 2, 1 / 2], mesh_primitives = [examplePrimitive]\<rparr>"
    and b2: "elem_at (model_meshes exampleModel) (size_t (node_mesh staticNode)) =
     Inr \<lparr>mesh_weights = [], mesh_primitives = [examplePrimitive]\<rparr>"
    by (simp_all add: ex_nodes size_t_def ex_meshes)
  have c1: "\<exists>m. isMorphTarget m \<and> meshesMorph loadedMorphNodeState = meshesMorph emptyState @ [m]"
    and c2: "meshesNormal loadedMorphNodeState = meshesNormal emptyState"
    using mesh_classification [OF a1 b1 ex_loadNodeMesh_morph] by simp_all
  have c3: "\<exists>m. \<not> isMorphTarget m \<and> meshesNormal loadedStaticNodeState = meshesNormal emptyState @ [m]"
    and c4: "meshesMorph loadedStaticNodeState = meshesMorph emptyState"
    using mesh_classification [OF a2 b2 ex_loadNodeMesh_static] by simp_all
  show ?thesis
    by (intro conjI) (rule a1 a2 b1 b2 c1 c2 c3 c4 ex_loadNodeMesh_morph ex_loadNodeMesh_static)+
qed

subsection \<open>C9: the vertex offset of a mesh\<close>



subsection \<open>C10: the push constants of a static mesh\<close>

text \<open>
  Claim C10: for every mesh classified \<open>Static\<close>, after loading, its morph push-constant
  fields \<open>bufferOffset\<close>, \<open>normalOffset\<close>, \<open>tangentOffset\<close> and \<open>vertexStride\<close> are all zero.

  The theorem is about a whole call of \<open>loadNode\<close>, children included: if the meshes
  collected before the call are in order (those of \<open>meshesNormal\<close> static with zero
  fields, those of \<open>meshesMorph\<close> morph), then after the call every static mesh of either
  collection has the four fields zero.
\<close>

theorem static_meshes_zeroed:
  assumes "loadNode fuel F model node nodeIndex parentMatrix gs st = Some (Inr st')"
    and "\<forall>m \<in> set (meshesNormal st). zeroedStatic m"
    and "\<forall>m \<in> set (meshesMorph st). isMorphTarget m"
  shows "\<forall>m \<in> set (meshesNormal st') \<union> set (meshesMorph st').
           \<not> isMorphTarget m \<longrightarrow>
           bufferOffset (morphPushConst m) = 0 \<and> normalOffset (morphPushConst m) = 0 \<and>
           tangentOffset (morphPushConst m) = 0 \<and> vertexStride (morphPushConst m) = 0"
proof -
  from loadNode_kinds [of fuel F model node nodeIndex parentMatrix gs st st'] assms
  have "(\<forall>m \<in> set (meshesNormal st'). zeroedStatic m) \<and>
        (\<forall>m \<in> set (meshesMorph st'). isMorphTarget m)"
    by blast
  then show ?thesis
    by (auto simp: zeroedStatic_def)
qed

theorem static_meshes_zeroed_witness:
  "loadNode (Suc (Suc 0)) exampleFloatOps exampleModel rootNode 2 (mat4_diag 1) 1 emptyState =
     Some (Inr loadedStaticNodeState) \<and>
   meshesNormal emptyState = [] \<and>
   meshesMorph emptyState = [] \<and>
   meshesNormal loadedStaticNodeState = [loadedStaticMesh] \<and>
   meshesMorph loadedStaticNodeState = [] \<and>
   \<not> isMorphTarget loadedStaticMesh \<and>
   bufferOffset (morphPushConst loadedStaticMesh) = 0 \<and>
   normalOffset (morphPushConst loadedStaticMesh) = 0 \<and>
   tangentOffset (morphPushConst loadedStaticMesh) = 0 \<and>
   vertexStride (morphPushConst loadedStaticMesh) = 0"
proof -
  have a: "\<forall>m \<in> set (meshesNormal emptyState). zeroedStatic m"
    and b: "\<forall>m \<in> set (meshesMorph emptyState). isMorphTarget m"
    by (simp_all add: emptyState_def)
  have a': "meshesNormal emptyState = []" and b': "meshesMorph emptyState = []"
    by (simp_all add: emptyState_def)
  have c: "meshesNormal loadedStaticNodeState = [loadedStaticMesh]"
    and d: "meshesMorph loadedStaticNodeState = []"
    by (simp_all add: loadedStaticNodeState_def loadedStaticState_def emptyState_def)
  have e: "\<not> isMorphTarget loadedStaticMesh"
    by (simp add: loadedStaticMesh_def Mesh_init_def)
  from static_meshes_zeroed [OF ex_loadNode_root a b] c e
  have f: "bufferOffset (morphPushConst loadedStaticMesh) = 0"
    and g: "normalOffset (morphPushConst loadedStaticMesh) = 0"
    and h: "tangentOffset (morphPushConst loadedStaticMesh) = 0"
    and i: "vertexStride (morphPushConst loadedStaticMesh) = 0"
    by simp_all
  show ?thesis
    by (intro conjI) (rule ex_loadNode_root a' b' c d e f g h i)+
qed

end
